theory Spec2Isabelle
  imports Complex_Main "HOL-Library.Log_Nat" "HOL-Library.Multiset"
begin

section \<open>JavaScript numbers\<close>

text \<open>
  The calculator computes on JavaScript numbers, that is IEEE 754 binary64 values.
  \<open>Finite q\<close> is the double whose value is the rational \<open>q\<close>; the two zeros are not
  told apart. Every arithmetic operation is the exact operation on the rationals followed
  by \<open>rnd64\<close>, rounding to the nearest double with ties to the even significand, so
  the result of an operation is always a double.
\<close>

datatype number = Finite rat | PosInf | NegInf | NaN

definition pow2 :: "int \<Rightarrow> rat" where
  "pow2 e = (if 0 \<le> e then 2 ^ nat e else 1 / 2 ^ nat (- e))"

text \<open>\<open>ilog2 a\<close> is the exponent \<open>e\<close> with \<open>2^e \<le> a < 2^(e+1)\<close>, for \<open>a > 0\<close>.\<close>

definition ilog2 :: "rat \<Rightarrow> int" where
  "ilog2 a = (if 1 \<le> a then int (floorlog 2 (nat \<lfloor>a\<rfloor>)) - 1
              else - int (floorlog 2 (nat (\<lceil>1 / a\<rceil> - 1))))"

definition round_half_even :: "rat \<Rightarrow> int" where
  "round_half_even r =
     (let f = \<lfloor>r\<rfloor>; d = r - of_int f
      in if d < 1 / 2 then f else if 1 / 2 < d then f + 1 else if even f then f else f + 1)"

text \<open>
  A double has a 53 bit significand; the exponent of its last bit is \<open>e - 52\<close> in the
  binade \<open>2^e\<close> and never below \<open>-1074\<close> (subnormals). A result of magnitude
  \<open>2^1024\<close> or more overflows to an infinity.
\<close>

definition rnd64 :: "rat \<Rightarrow> number" where
  "rnd64 q =
     (if q = 0 then Finite 0
      else let g = max (ilog2 \<bar>q\<bar>) (- 1022) - 52;
               v = of_int (round_half_even (\<bar>q\<bar> / pow2 g)) * pow2 g
           in if pow2 1024 \<le> v then (if 0 < q then PosInf else NegInf)
              else Finite (sgn q * v))"

text \<open>The operators \<open>+\<close>, \<open>-\<close>, \<open>*\<close> and \<open>/\<close> on numbers.\<close>

fun fadd :: "number \<Rightarrow> number \<Rightarrow> number" where
  "fadd (Finite a) (Finite b) = rnd64 (a + b)"
| "fadd NaN _ = NaN"
| "fadd _ NaN = NaN"
| "fadd PosInf NegInf = NaN"
| "fadd NegInf PosInf = NaN"
| "fadd PosInf _ = PosInf"
| "fadd _ PosInf = PosInf"
| "fadd NegInf _ = NegInf"
| "fadd _ NegInf = NegInf"

fun fneg :: "number \<Rightarrow> number" where
  "fneg (Finite a) = Finite (- a)"
| "fneg PosInf = NegInf"
| "fneg NegInf = PosInf"
| "fneg NaN = NaN"

definition fsub :: "number \<Rightarrow> number \<Rightarrow> number" where
  "fsub a b = fadd a (fneg b)"

definition signed_inf :: "bool \<Rightarrow> number" where
  "signed_inf positive = (if positive then PosInf else NegInf)"

fun fmul :: "number \<Rightarrow> number \<Rightarrow> number" where
  "fmul (Finite a) (Finite b) = rnd64 (a * b)"
| "fmul NaN _ = NaN"
| "fmul _ NaN = NaN"
| "fmul (Finite a) PosInf = (if a = 0 then NaN else signed_inf (0 < a))"
| "fmul (Finite a) NegInf = (if a = 0 then NaN else signed_inf (a < 0))"
| "fmul PosInf (Finite b) = (if b = 0 then NaN else signed_inf (0 < b))"
| "fmul NegInf (Finite b) = (if b = 0 then NaN else signed_inf (b < 0))"
| "fmul PosInf PosInf = PosInf"
| "fmul NegInf NegInf = PosInf"
| "fmul PosInf NegInf = NegInf"
| "fmul NegInf PosInf = NegInf"

text \<open>
  Division by a zero gives an infinity whose sign is that of the dividend, the zero being
  taken as \<open>+0\<close>; \<open>performDivision\<close> below never divides by zero.
\<close>

fun fdiv :: "number \<Rightarrow> number \<Rightarrow> number" where
  "fdiv (Finite a) (Finite b) =
     (if b = 0 then (if a = 0 then NaN else signed_inf (0 < a)) else rnd64 (a / b))"
| "fdiv NaN _ = NaN"
| "fdiv _ NaN = NaN"
| "fdiv (Finite a) _ = Finite 0"
| "fdiv PosInf (Finite b) = signed_inf (0 \<le> b)"
| "fdiv NegInf (Finite b) = signed_inf (b < 0)"
| "fdiv _ _ = NaN"

text \<open>
  \<open>Math.round\<close> returns the integer nearest to its argument, and of two equally near
  integers the one towards \<open>+\<infinity>\<close>: it is \<open>floor (x + 1/2)\<close>, computed exactly.
\<close>

fun Math_round :: "number \<Rightarrow> number" where
  "Math_round (Finite r) = Finite (of_int \<lfloor>r + 1 / 2\<rfloor>)"
| "Math_round x = x"

text \<open>
  \<open>Math.pow(10, p)\<close> for an integer \<open>p\<close>, taken as correctly rounded (it is exact for
  \<open>0 \<le> p \<le> 22\<close>).
\<close>

definition Math_pow10 :: "int \<Rightarrow> number" where
  "Math_pow10 p = rnd64 (if 0 \<le> p then 10 ^ nat p else 1 / 10 ^ nat (- p))"

section \<open>The operation registry (calculator.ts, lines 33 to 81)\<close>

datatype RoundingMode = mode_floor | mode_ceil | mode_round

text \<open>
  \<open>CalculatorPreferences\<close> of types.ts: both fields are optional, \<open>None\<close> is
  \<open>undefined\<close>. The precision is an integer, as the specification has it.
\<close>

record CalculatorPreferences =
  precision :: "int option"
  roundingMode :: "RoundingMode option"

text \<open>
  A thrown value: an instance of \<open>Error\<close> with its message, an instance of \<open>TypeError\<close>
  (a subclass of \<open>Error\<close>) with its message, or a value that is no \<open>Error\<close>.
\<close>

datatype exn = JsError string | JsTypeError string | NonError

fun instanceofError :: "exn \<Rightarrow> bool" where
  "instanceofError NonError = False"
| "instanceofError _ = True"

fun message :: "exn \<Rightarrow> string" where
  "message (JsError m) = m"
| "message (JsTypeError m) = m"
| "message NonError = []"

type_synonym CalculationFunction = "number list \<Rightarrow> CalculatorPreferences \<Rightarrow> exn + number"

definition createMomentaryFunction ::
  "('i \<Rightarrow> 'c \<Rightarrow> 'o) \<Rightarrow> ('i \<Rightarrow> 'c \<Rightarrow> 'o)" where
  "createMomentaryFunction fn = (\<lambda>input context. fn input context)"

text \<open>
  \<open>Array.prototype.reduce\<close> without an initial value: a \<open>TypeError\<close> on the empty
  array, otherwise the first element seeds the accumulator and the callback runs on the
  elements from index 1 on. A callback that throws ends the loop.
\<close>

primrec reduce_from ::
  "(number \<Rightarrow> number \<Rightarrow> nat \<Rightarrow> exn + number) \<Rightarrow> number \<Rightarrow> nat \<Rightarrow> number list \<Rightarrow> exn + number" where
  "reduce_from f acc i [] = Inr acc"
| "reduce_from f acc i (v # vs) =
     (case f acc v i of Inl e \<Rightarrow> Inl e | Inr acc' \<Rightarrow> reduce_from f acc' (Suc i) vs)"

definition reduce1 ::
  "(number \<Rightarrow> number \<Rightarrow> nat \<Rightarrow> exn + number) \<Rightarrow> number list \<Rightarrow> exn + number" where
  "reduce1 f xs =
     (case xs of
        [] \<Rightarrow> Inl (JsTypeError ''Reduce of empty array with no initial value'')
      | x # rest \<Rightarrow> reduce_from f x 1 rest)"

definition performAddition :: CalculationFunction where
  "performAddition =
     createMomentaryFunction (\<lambda>operands unused_preferences.
       Inr (foldl (\<lambda>sum value. fadd sum value) (Finite 0) operands))"

definition performSubtraction :: CalculationFunction where
  "performSubtraction =
     createMomentaryFunction (\<lambda>operands unused_preferences.
       reduce1 (\<lambda>diff value index. Inr (if index = 0 then value else fsub diff value)) operands)"

definition performMultiplication :: CalculationFunction where
  "performMultiplication =
     createMomentaryFunction (\<lambda>operands unused_preferences.
       Inr (foldl (\<lambda>product value. fmul product value) (Finite 1) operands))"

definition performDivision :: CalculationFunction where
  "performDivision =
     createMomentaryFunction (\<lambda>operands preferences.
       case reduce1 (\<lambda>quotient value index.
              if index = 0 then Inr value
              else if value = Finite 0 then Inl (JsError ''Division by zero'')
              else Inr (fdiv quotient value)) operands of
         Inl e \<Rightarrow> Inl e
       | Inr result \<Rightarrow>
           Inr (case precision preferences of
                  Some p \<Rightarrow> fdiv (Math_round (fmul result (Math_pow10 p))) (Math_pow10 p)
                | None \<Rightarrow> result))"

text \<open>
  The registry is an object literal, so \<open>operations[name]\<close> finds its four own keys and,
  through the prototype chain, the members of \<open>Object.prototype\<close>: the methods of the
  standard and the accessor \<open>__proto__\<close>. \<open>None\<close> is the \<open>undefined\<close> of a name found
  nowhere.
\<close>

definition objectPrototypeKeys :: "string list" where
  "objectPrototypeKeys =
     [''constructor'', ''__defineGetter__'', ''__defineSetter__'', ''hasOwnProperty'',
      ''__lookupGetter__'', ''__lookupSetter__'', ''isPrototypeOf'', ''propertyIsEnumerable'',
      ''toString'', ''valueOf'', ''__proto__'', ''toLocaleString'']"

datatype callee = OwnFunction CalculationFunction | Inherited string

definition operations :: "string \<Rightarrow> callee option" where
  "operations name =
     (if name = ''add'' then Some (OwnFunction performAddition)
      else if name = ''subtract'' then Some (OwnFunction performSubtraction)
      else if name = ''multiply'' then Some (OwnFunction performMultiplication)
      else if name = ''divide'' then Some (OwnFunction performDivision)
      else if name \<in> set objectPrototypeKeys then Some (Inherited name)
      else None)"

text \<open>
  The specification's reading of the rounding in \<open>divide\<close>: to \<open>p\<close> decimal digits,
  a tie going away from zero.
\<close>

definition spec_round_half_away_from_zero :: "rat \<Rightarrow> nat \<Rightarrow> rat" where
  "spec_round_half_away_from_zero q p = sgn q * of_int \<lfloor>\<bar>q\<bar> * 10 ^ p + 1 / 2\<rfloor> / 10 ^ p"


section \<open>Objects and the store\<close>

text \<open>
  Objects are shared and mutated in place, so they live in a store and values refer to
  them by address. An \<open>Obj\<close> holds its own enumerable properties in insertion order and
  the flag set by \<open>Object.freeze\<close>; an \<open>Arr\<close> holds the elements of an array. Preference
  records travel as values: the calculator only passes them on.
\<close>

type_synonym addr = nat

datatype val = VNull | VNum number | VStr string | VPrefs CalculatorPreferences | VRef addr

datatype cell = Obj "(string \<times> val) list" bool | Arr "val list"

type_synonym heap = "cell list"

definition lookup :: "heap \<Rightarrow> addr \<Rightarrow> cell option" where
  "lookup h a = (if a < length h then Some (h ! a) else None)"

text \<open>\<open>getProp h a k\<close> reads \<open>a[k]\<close>; \<open>None\<close> is \<open>undefined\<close>.\<close>

definition getProp :: "heap \<Rightarrow> addr \<Rightarrow> string \<Rightarrow> val option" where
  "getProp h a k = (case lookup h a of Some (Obj ps fr) \<Rightarrow> map_of ps k | _ \<Rightarrow> None)"

primrec putProp :: "string \<Rightarrow> val \<Rightarrow> (string \<times> val) list \<Rightarrow> (string \<times> val) list" where
  "putProp k v [] = [(k, v)]"
| "putProp k v (p # ps) = (if fst p = k then (k, v) # ps else p # putProp k v ps)"

text \<open>
  \<open>setProp a k v h\<close> is the assignment \<open>a[k] = v\<close> in strict code (the file is a module):
  on a frozen object it throws a \<open>TypeError\<close> and writes nothing. Only plain objects are
  written by name here; for any other target the store is left as it is.
\<close>

definition setProp :: "addr \<Rightarrow> string \<Rightarrow> val \<Rightarrow> heap \<Rightarrow> exn + heap" where
  "setProp a k v h =
     (case lookup h a of
        Some (Obj ps fr) \<Rightarrow>
          if fr then Inl (JsTypeError (''Cannot assign to read only property '' @ k))
          else Inr (h[a := Obj (putProp k v ps) fr])
      | _ \<Rightarrow> Inr h)"

text \<open>\<open>Object.freeze(a)\<close>: shallow, in place, returns the same object.\<close>

definition freeze :: "addr \<Rightarrow> heap \<Rightarrow> heap" where
  "freeze a h = (case lookup h a of Some (Obj ps fr) \<Rightarrow> h[a := Obj ps True] | _ \<Rightarrow> h)"

text \<open>
  The runtime around the calculator: the store, the clock in milliseconds, whether
  \<open>global.gc\<close> is exposed and how often it has been called, the supply of fresh
  identifiers behind \<open>crypto.randomUUID\<close>, and the reasons of the promises that were
  rejected with no handler attached, in order. What the host does with an unhandled
  rejection (Node by default reports it as an uncaught error and ends the process; a test
  runner carries on) is its own affair: the calls that follow one are those of a host that
  carries on.
\<close>

record runtime =
  heap :: heap
  clock :: nat
  gcExposed :: bool
  gcCalls :: nat
  uuidCount :: nat
  unhandledRejections :: "exn list"

definition alloc :: "cell \<Rightarrow> runtime \<Rightarrow> addr \<times> runtime" where
  "alloc c rt = (length (heap rt), rt\<lparr>heap := heap rt @ [c]\<rparr>)"

definition randomUUID :: "runtime \<Rightarrow> nat \<times> runtime" where
  "randomUUID rt = (uuidCount rt, rt\<lparr>uuidCount := Suc (uuidCount rt)\<rparr>)"

text \<open>
  \<open>setTimeout(callback, after)\<close> of Node: a delay below 1 or above \<open>TIMEOUT_MAX\<close>, which
  is \<open>2^31 - 1\<close> milliseconds, is replaced by 1. The result is the time at which the
  timeout falls due.
\<close>

definition TIMEOUT_MAX :: nat where
  "TIMEOUT_MAX = 2147483647"

definition setTimeout :: "nat \<Rightarrow> runtime \<Rightarrow> nat" where
  "setTimeout after rt = clock rt + (if after < 1 \<or> TIMEOUT_MAX < after then 1 else after)"

section \<open>The cleanup sweeper (calculator.ts, lines 21 to 31)\<close>

text \<open>
  \<open>Object.keys(data).forEach(key => { data[key] = null })\<close>: the keys are taken once,
  then assigned in order; the first assignment that throws ends the loop and leaves the
  earlier writes in place.
\<close>

primrec forEachKey :: "addr \<Rightarrow> string list \<Rightarrow> heap \<Rightarrow> exn option \<times> heap" where
  "forEachKey a [] h = (None, h)"
| "forEachKey a (key # keys) h =
     (case setProp a key VNull h of
        Inl e \<Rightarrow> (Some e, h)
      | Inr h' \<Rightarrow> forEachKey a keys h')"

text \<open>
  The body of the outer loop for one element. The elements are references to objects, so
  the guard \<open>typeof data === 'object' && data !== null\<close> holds; the keys of an array are
  its indices.
\<close>

definition sweepDatum :: "addr \<Rightarrow> heap \<Rightarrow> exn option \<times> heap" where
  "sweepDatum a h =
     (case lookup h a of
        Some (Obj ps fr) \<Rightarrow> forEachKey a (map fst ps) h
      | Some (Arr vs) \<Rightarrow> (None, h[a := Arr (map (\<lambda>_. VNull) vs)])
      | None \<Rightarrow> (None, h))"

primrec forEachDatum :: "addr list \<Rightarrow> heap \<Rightarrow> exn option \<times> heap" where
  "forEachDatum [] h = (None, h)"
| "forEachDatum (d # ds) h =
     (case sweepDatum d h of
        (Some e, h') \<Rightarrow> (Some e, h')
      | (None, h') \<Rightarrow> forEachDatum ds h')"

text \<open>
  \<open>secureCleanup\<close> is \<open>async\<close>: a throw inside it is the rejection \<open>Inl e\<close> of its
  promise, and the writes made before the throw stay in the store.
\<close>

definition secureCleanup :: "addr list \<Rightarrow> runtime \<Rightarrow> (exn + unit) \<times> runtime" where
  "secureCleanup sensitive rt =
     (case forEachDatum sensitive (heap rt) of
        (Some e, h') \<Rightarrow> (Inl e, rt\<lparr>heap := h'\<rparr>)
      | (None, h') \<Rightarrow>
          (Inr (), if gcExposed rt then rt\<lparr>heap := h', gcCalls := Suc (gcCalls rt)\<rparr>
                   else rt\<lparr>heap := h'\<rparr>))"

section \<open>The calculator instance (calculator.ts, lines 83 to 241)\<close>

record EphemeralState =
  data :: addr
  expiresAt :: nat
  taskId :: nat

text \<open>
  The fields of \<open>MomentaryCalculatorImpl\<close>. \<open>intent\<close> and \<open>sensitiveData\<close> are references
  into the store. \<open>dissolutionTimer\<close> is the timeout created by \<open>setTimeout\<close>: \<open>Some t\<close>
  while it is scheduled to fire at time \<open>t\<close>, \<open>None\<close> once it has fired or was cleared.
\<close>

record MomentaryCalculatorImpl =
  calcId :: nat
  purpose :: string
  manifestedAt :: nat
  maxLifetime :: nat
  intent :: addr
  active :: bool
  dissolutionTimer :: "nat option"
  ephemeralState :: EphemeralState
  sensitiveData :: addr

type_synonym config = "MomentaryCalculatorImpl \<times> runtime"

record ManifestOptions =
  optMaxLifetime :: "nat option"

text \<open>
  \<open>CalculationResult\<close> of types.ts. The field \<open>value\<close> is declared a number; at run time
  it holds whatever the called member returned.
\<close>

record CalculationResult =
  "value" :: "val option"
  error :: "string option"
  operation :: string
  completedAt :: nat

definition DEFAULT_MAX_LIFETIME :: nat where
  "DEFAULT_MAX_LIFETIME = 30000"

definition createEphemeralState :: "addr \<Rightarrow> nat \<Rightarrow> runtime \<Rightarrow> EphemeralState \<times> runtime" where
  "createEphemeralState d taskDuration rt =
     (let rt1 = rt\<lparr>heap := freeze d (heap rt)\<rparr>;
          (uuid, rt2) = randomUUID rt1
      in (\<lparr>data = d, expiresAt = clock rt1 + taskDuration, taskId = uuid\<rparr>, rt2))"

text \<open>
  Reading \<open>intent.operation\<close> and \<open>intent.operands\<close> through the reference. The fields
  are typed as a string and an array of numbers; \<open>None\<close> stands for anything that is no
  array.
\<close>

definition intentOperation :: "heap \<Rightarrow> addr \<Rightarrow> string" where
  "intentOperation h a = (case getProp h a ''operation'' of Some (VStr s) \<Rightarrow> s | _ \<Rightarrow> ''undefined'')"

definition intentOperandsRef :: "heap \<Rightarrow> addr \<Rightarrow> addr option" where
  "intentOperandsRef h a = (case getProp h a ''operands'' of Some (VRef oa) \<Rightarrow> Some oa | _ \<Rightarrow> None)"

definition arrayAt :: "heap \<Rightarrow> addr \<Rightarrow> val list option" where
  "arrayAt h a = (case lookup h a of Some (Arr vs) \<Rightarrow> Some vs | _ \<Rightarrow> None)"

definition intentOperands :: "heap \<Rightarrow> addr \<Rightarrow> val list option" where
  "intentOperands h a = (case intentOperandsRef h a of Some oa \<Rightarrow> arrayAt h oa | None \<Rightarrow> None)"

definition toNumbers :: "val list \<Rightarrow> number list" where
  "toNumbers vs = map (\<lambda>v. case v of VNum n \<Rightarrow> n | _ \<Rightarrow> NaN) vs"

definition emptyRegistry :: cell where
  "emptyRegistry = Obj [(''operands'', VNull), (''result'', VNull), (''userPreferences'', VNull)] False"

text \<open>
  The constructor. The field initialisers run first (\<open>active = true\<close>, a new
  \<open>sensitiveData\<close> object), then the body: the ephemeral state freezes the caller's
  intent, \<open>[...intent.operands]\<close> copies the operands into a new array, and
  \<open>setTimeout\<close> is called with the delay \<open>maxLifetime\<close>.
\<close>

definition new_MomentaryCalculatorImpl ::
  "nat \<Rightarrow> string \<Rightarrow> nat \<Rightarrow> nat \<Rightarrow> addr \<Rightarrow> runtime \<Rightarrow> exn + config" where
  "new_MomentaryCalculatorImpl ident purp mAt maxL intnt rt =
     (let (sd, rt1) = alloc emptyRegistry rt;
          (es, rt2) = createEphemeralState intnt maxL rt1
      in case intentOperands (heap rt2) intnt of
           None \<Rightarrow> Inl (JsTypeError ''intent.operands is not iterable'')
         | Some vs \<Rightarrow>
             let (copy, rt3) = alloc (Arr vs) rt2
             in case setProp sd ''operands'' (VRef copy) (heap rt3) of
                  Inl e \<Rightarrow> Inl e
                | Inr h \<Rightarrow>
                    Inr (\<lparr>calcId = ident, purpose = purp, manifestedAt = mAt, maxLifetime = maxL,
                          intent = intnt, active = True,
                          dissolutionTimer = Some (setTimeout maxL rt3),
                          ephemeralState = es, sensitiveData = sd\<rparr>,
                         rt3\<lparr>heap := h\<rparr>))"

text \<open>
  \<open>options?.maxLifetime || DEFAULT_MAX_LIFETIME\<close>: a missing options object, a missing
  field and the falsy value 0 all give the default.
\<close>

definition manifestCalculator ::
  "addr \<Rightarrow> ManifestOptions option \<Rightarrow> runtime \<Rightarrow> exn + config" where
  "manifestCalculator intnt options rt =
     (let maxL = (case options of
                    None \<Rightarrow> DEFAULT_MAX_LIFETIME
                  | Some opts \<Rightarrow>
                      (case optMaxLifetime opts of
                         None \<Rightarrow> DEFAULT_MAX_LIFETIME
                       | Some m \<Rightarrow> if m = 0 then DEFAULT_MAX_LIFETIME else m));
          (uuid, rt1) = randomUUID rt
      in new_MomentaryCalculatorImpl uuid (intentOperation (heap rt1) intnt) (clock rt1) maxL intnt rt1)"

text \<open>
  The broker is an outside collaborator: \<open>execute\<close> takes the outcome of its one call
  \<open>userState.read('/preferences/calculator')\<close>, a rejection \<open>Inl e\<close> or the stored record
  (\<open>None\<close> for \<open>undefined\<close>).
\<close>

type_synonym UserOwnedState = "exn + CalculatorPreferences option"

definition getUserPreferences :: "UserOwnedState \<Rightarrow> exn + CalculatorPreferences" where
  "getUserPreferences userState =
     (case userState of
        Inl e \<Rightarrow> Inl e
      | Inr None \<Rightarrow> Inr \<lparr>precision = None, roundingMode = None\<rparr>
      | Inr (Some preferences) \<Rightarrow> Inr preferences)"

text \<open>The \<open>catch\<close> clause of \<open>execute\<close>.\<close>

definition caught :: "exn \<Rightarrow> config \<Rightarrow> (exn + CalculationResult) \<times> config" where
  "caught e cfg =
     (Inr \<lparr>value = None,
           error = Some (if instanceofError e then message e else ''Unknown error''),
           operation = intentOperation (heap (snd cfg)) (intent (fst cfg)),
           completedAt = clock (snd cfg)\<rparr>, cfg)"

text \<open>
  The call \<open>operation(this.intent.operands, preferences)\<close>, with no receiver. A function
  of the registry computes on the numbers of the array. Of the inherited members,
  \<open>constructor\<close> is \<open>Object\<close>, which returns its argument, the operands array itself;
  \<open>toString\<close> answers for the missing receiver; \<open>__proto__\<close> reads as the object
  \<open>Object.prototype\<close>, which is no function; every other method throws a \<open>TypeError\<close>
  when it converts the missing receiver to an object.
\<close>

definition call_operation ::
  "callee \<Rightarrow> addr \<Rightarrow> number list \<Rightarrow> CalculatorPreferences \<Rightarrow> exn + val" where
  "call_operation operation' operands numbers preferences =
     (case operation' of
        OwnFunction f \<Rightarrow>
          (case f numbers preferences of Inl e \<Rightarrow> Inl e | Inr v \<Rightarrow> Inr (VNum v))
      | Inherited name \<Rightarrow>
          if name = ''constructor'' then Inr (VRef operands)
          else if name = ''toString'' then Inr (VStr ''[object Undefined]'')
          else if name = ''__proto__'' then Inl (JsTypeError ''operation is not a function'')
          else Inl (JsTypeError ''Cannot convert undefined or null to object''))"

definition execute :: "UserOwnedState \<Rightarrow> config \<Rightarrow> (exn + CalculationResult) \<times> config" where
  "execute userState cfg =
     (let this = fst cfg; rt = snd cfg
      in if \<not> active this then (Inl (JsError ''Calculator has been dissolved''), cfg)
         else
           case getUserPreferences userState of
             Inl e \<Rightarrow> caught e cfg
           | Inr preferences \<Rightarrow>
               (case setProp (sensitiveData this) ''userPreferences'' (VPrefs preferences) (heap rt) of
                  Inl e \<Rightarrow> caught e cfg
                | Inr h1 \<Rightarrow>
                    let rt1 = rt\<lparr>heap := h1\<rparr>; opname = intentOperation h1 (intent this)
                    in case operations opname of
                         None \<Rightarrow>
                           (Inr \<lparr>value = None, error = Some (''Unknown operation: '' @ opname),
                                 operation = opname, completedAt = clock rt1\<rparr>, (this, rt1))
                       | Some operation' \<Rightarrow>
                           (case intentOperandsRef h1 (intent this) of
                              None \<Rightarrow> caught (JsTypeError ''operands.reduce is not a function'') (this, rt1)
                            | Some operands \<Rightarrow>
                                (case arrayAt h1 operands of
                                   None \<Rightarrow> caught (JsTypeError ''operands.reduce is not a function'') (this, rt1)
                                 | Some vs \<Rightarrow>
                                     (case call_operation operation' operands (toNumbers vs) preferences of
                                        Inl e \<Rightarrow> caught e (this, rt1)
                                      | Inr v \<Rightarrow>
                                          (case setProp (sensitiveData this) ''result'' v h1 of
                                             Inl e \<Rightarrow> caught e (this, rt1)
                                           | Inr h2 \<Rightarrow>
                                               (Inr \<lparr>value = Some v, error = None,
                                                     operation = intentOperation h2 (intent this),
                                                     completedAt = clock rt1\<rparr>,
                                                (this, rt1\<lparr>heap := h2\<rparr>))))))))"

text \<open>
  \<open>dissolve\<close> is \<open>async\<close>: when the awaited \<open>secureCleanup\<close> rejects, so does
  \<open>dissolve\<close>, and the statements after the \<open>await\<close> do not run.
\<close>

definition dissolve :: "config \<Rightarrow> (exn + unit) \<times> config" where
  "dissolve cfg =
     (let this = (fst cfg)\<lparr>active := False, dissolutionTimer := None\<rparr>
      in case secureCleanup [sensitiveData this, data (ephemeralState this)] (snd cfg) of
           (Inl e, rt1) \<Rightarrow> (Inl e, (this, rt1))
         | (Inr u, rt1) \<Rightarrow>
             let (sd, rt2) = alloc emptyRegistry rt1
             in (Inr (), (this\<lparr>sensitiveData := sd\<rparr>, rt2)))"

definition isActive :: "config \<Rightarrow> bool" where
  "isActive cfg = active (fst cfg)"

definition hasResidualData :: "config \<Rightarrow> bool" where
  "hasResidualData cfg = False"

text \<open>
  \<open>getSensitiveData\<close> returns the reference held in \<open>this.sensitiveData\<close>;
  \<open>registry\<close> is what a caller reads through it.
\<close>

definition getSensitiveData :: "config \<Rightarrow> addr" where
  "getSensitiveData cfg = sensitiveData (fst cfg)"

definition registry :: "config \<Rightarrow> cell option" where
  "registry cfg = lookup (heap (snd cfg)) (getSensitiveData cfg)"

text \<open>
  Time passes between calls. \<open>advance t\<close> lets the clock reach \<open>t\<close>; a timeout that is due
  by then fires once. Its callback \<open>() => { this.dissolve() }\<close> calls \<open>dissolve\<close> and
  drops the promise, so a rejection of that promise has no handler.
\<close>

definition advance :: "nat \<Rightarrow> config \<Rightarrow> config" where
  "advance t cfg =
     (let this = fst cfg; rt = (snd cfg)\<lparr>clock := max t (clock (snd cfg))\<rparr>
      in case dissolutionTimer this of
           None \<Rightarrow> (this, rt)
         | Some due \<Rightarrow>
             if due \<le> clock rt
             then (case dissolve (this\<lparr>dissolutionTimer := None\<rparr>, rt) of
                     (Inl e, cfg') \<Rightarrow>
                       (fst cfg', (snd cfg')\<lparr>unhandledRejections := unhandledRejections (snd cfg') @ [e]\<rparr>)
                   | (Inr u, cfg') \<Rightarrow> cfg')
             else (this, rt))"

text \<open>What a caller and the passing of time can do to an instance, in sequence.\<close>

datatype call = Execute UserOwnedState | Dissolve | Advance nat

fun step :: "config \<Rightarrow> call \<Rightarrow> config" where
  "step cfg (Execute userState) = snd (execute userState cfg)"
| "step cfg Dissolve = snd (dissolve cfg)"
| "step cfg (Advance t) = advance t cfg"

definition run :: "call list \<Rightarrow> config \<Rightarrow> config" where
  "run calls cfg = foldl step cfg calls"

text \<open>
  A caller's intent in the store: an object whose \<open>operation\<close> is the string \<open>opname\<close>
  and whose \<open>operands\<close> refers to an array of the numbers \<open>xs\<close>.
\<close>

definition isIntent :: "heap \<Rightarrow> addr \<Rightarrow> string \<Rightarrow> number list \<Rightarrow> bool" where
  "isIntent h a opname xs \<longleftrightarrow>
     getProp h a ''operation'' = Some (VStr opname) \<and> intentOperands h a = Some (map VNum xs)"

section \<open>Instances reached from a manifestation\<close>

text \<open>
  What holds of an instance from its construction on, whatever is called on it: its
  \<open>intent\<close> and the \<open>data\<close> of its ephemeral state are the caller's object \<open>ia\<close>, now
  frozen, with the properties \<open>ps\<close>; the operands array \<open>oa\<close> holds \<open>xs\<close>; the
  registry is another, unfrozen object with its three slots; and once the instance is
  inactive the slots are null and the timeout is gone.
\<close>

definition inv :: "addr \<Rightarrow> (string \<times> val) list \<Rightarrow> addr \<Rightarrow> string \<Rightarrow> number list \<Rightarrow> config \<Rightarrow> bool" where
  "inv ia ps oa opname xs cfg \<longleftrightarrow>
     intent (fst cfg) = ia \<and> data (ephemeralState (fst cfg)) = ia \<and>
     ia < length (heap (snd cfg)) \<and> oa < length (heap (snd cfg)) \<and>
     sensitiveData (fst cfg) < length (heap (snd cfg)) \<and>
     sensitiveData (fst cfg) \<noteq> ia \<and> sensitiveData (fst cfg) \<noteq> oa \<and>
     heap (snd cfg) ! ia = Obj ps True \<and>
     map_of ps ''operation'' = Some (VStr opname) \<and>
     map_of ps ''operands'' = Some (VRef oa) \<and>
     heap (snd cfg) ! oa = Arr (map VNum xs) \<and>
     (\<exists>a b c. heap (snd cfg) ! sensitiveData (fst cfg) =
        Obj [(''operands'', a), (''result'', b), (''userPreferences'', c)] False) \<and>
     (\<not> active (fst cfg) \<longrightarrow>
        heap (snd cfg) ! sensitiveData (fst cfg) = emptyRegistry \<and> dissolutionTimer (fst cfg) = None)"

definition isFrozen :: "heap \<Rightarrow> addr \<Rightarrow> bool" where
  "isFrozen h a = (case lookup h a of Some (Obj ps fr) \<Rightarrow> fr | _ \<Rightarrow> False)"

text \<open>
  Runtimes with a caller's intent at address 0: \<open>{operation: 'divide', operands: [10, 0]}\<close>
  and \<open>{operation: 'invalid', operands: [1, 2]}\<close>, as in calculator.test.ts, and
  \<open>{operation: 'toString', operands: [1, 2]}\<close>.
\<close>

definition example_runtime :: runtime where
  "example_runtime =
     \<lparr>heap = [Obj [(''operation'', VStr ''divide''), (''operands'', VRef 1)] False,
              Arr [VNum (Finite 10), VNum (Finite 0)]],
      clock = 0, gcExposed = True, gcCalls = 0, uuidCount = 0, unhandledRejections = []\<rparr>"



section \<open>Operands for the claims on the operations\<close>

text \<open>Integer operands as numbers, and the preferences record with no field set.\<close>

definition integers :: "int list \<Rightarrow> number list" where
  "integers ks = map (\<lambda>k. Finite (of_int k)) ks"

definition noPreferences :: CalculatorPreferences where
  "noPreferences = \<lparr>precision = None, roundingMode = None\<rparr>"

section \<open>Lemmas on the store and the lifecycle\<close>

lemma isIntentD:
  assumes "isIntent h ia opname xs"
  obtains ps fr oa where "ia < length h" "h ! ia = Obj ps fr"
    "map_of ps ''operation'' = Some (VStr opname)" "map_of ps ''operands'' = Some (VRef oa)"
    "oa < length h" "h ! oa = Arr (map VNum xs)"
  using assms
  by (auto simp: isIntent_def getProp_def intentOperands_def intentOperandsRef_def arrayAt_def
      lookup_def split: if_splits option.splits cell.splits val.splits)

lemma toNumbers_VNum [simp]: "toNumbers (map VNum xs) = xs"
  by (induction xs) (simp_all add: toNumbers_def)

lemma sweepDatum_registry:
  assumes "sd < length h" "h ! sd = Obj [(''operands'', a), (''result'', b), (''userPreferences'', c)] False"
  shows "sweepDatum sd h = (None, h[sd := emptyRegistry])"
  using assms by (simp add: sweepDatum_def lookup_def setProp_def emptyRegistry_def)

lemma sweepDatum_frozen:
  assumes "a < length h" "h ! a = Obj ps True" "ps \<noteq> []"
  shows "sweepDatum a h = (Some (JsTypeError (''Cannot assign to read only property '' @ fst (hd ps))), h)"
  using assms by (cases ps) (simp_all add: sweepDatum_def lookup_def setProp_def)

lemma dissolve_inv_eq:
  assumes "inv ia ps oa opname xs cfg"
  shows "dissolve cfg =
     (Inl (JsTypeError (''Cannot assign to read only property '' @ fst (hd ps))),
      ((fst cfg)\<lparr>active := False, dissolutionTimer := None\<rparr>,
       (snd cfg)\<lparr>heap := (heap (snd cfg))[sensitiveData (fst cfg) := emptyRegistry]\<rparr>))"
proof -
  from assms obtain a b c where
    sd: "sensitiveData (fst cfg) < length (heap (snd cfg))"
      "heap (snd cfg) ! sensitiveData (fst cfg) = Obj [(''operands'', a), (''result'', b), (''userPreferences'', c)] False"
    and ia: "ia < length (heap (snd cfg))" "heap (snd cfg) ! ia = Obj ps True"
      "data (ephemeralState (fst cfg)) = ia" "sensitiveData (fst cfg) \<noteq> ia"
    by (auto simp: inv_def)
  from assms have ps: "ps \<noteq> []"
    by (auto simp: inv_def)
  have 1: "sweepDatum (sensitiveData (fst cfg)) (heap (snd cfg)) =
      (None, (heap (snd cfg))[sensitiveData (fst cfg) := emptyRegistry])"
    by (rule sweepDatum_registry[OF sd])
  have 2: "sweepDatum ia ((heap (snd cfg))[sensitiveData (fst cfg) := emptyRegistry]) =
      (Some (JsTypeError (''Cannot assign to read only property '' @ fst (hd ps))),
       (heap (snd cfg))[sensitiveData (fst cfg) := emptyRegistry])"
    by (rule sweepDatum_frozen) (use ia ps in simp_all)
  show ?thesis
    by (simp add: dissolve_def secureCleanup_def 1 2 ia)
qed

lemma dissolve_inv:
  assumes "inv ia ps oa opname xs cfg"
  shows "inv ia ps oa opname xs (snd (dissolve cfg))"
  using assms unfolding dissolve_inv_eq[OF assms]
  by (auto simp: inv_def nth_list_update emptyRegistry_def)

lemma setProp_registry:
  assumes "sd < length h" "h ! sd = Obj [(''operands'', a), (''result'', b), (''userPreferences'', c)] False"
  shows "setProp sd ''userPreferences'' v h =
           Inr (h[sd := Obj [(''operands'', a), (''result'', b), (''userPreferences'', v)] False])"
    and "setProp sd ''result'' v h =
           Inr (h[sd := Obj [(''operands'', a), (''result'', v), (''userPreferences'', c)] False])"
  using assms by (simp_all add: setProp_def lookup_def)

lemma getProp_other [simp]:
  "a \<noteq> b \<Longrightarrow> getProp (h[b := c]) a k = getProp h a k"
  by (simp add: getProp_def lookup_def)

lemma arrayAt_other [simp]:
  "a \<noteq> b \<Longrightarrow> arrayAt (h[b := c]) a = arrayAt h a"
  by (simp add: arrayAt_def lookup_def)

lemma inv_reads:
  assumes "inv ia ps oa opname xs cfg"
  shows "intentOperation (heap (snd cfg)) (intent (fst cfg)) = opname"
    and "intentOperands (heap (snd cfg)) (intent (fst cfg)) = Some (map VNum xs)"
    and "intentOperation ((heap (snd cfg))[sensitiveData (fst cfg) := c]) (intent (fst cfg)) = opname"
    and "intentOperands ((heap (snd cfg))[sensitiveData (fst cfg) := c]) (intent (fst cfg)) = Some (map VNum xs)"
    and "intentOperation ((heap (snd cfg))[sensitiveData (fst cfg) := c, sensitiveData (fst cfg) := c']) (intent (fst cfg)) = opname"
    and "intentOperandsRef ((heap (snd cfg))[sensitiveData (fst cfg) := c]) (intent (fst cfg)) = Some oa"
    and "arrayAt ((heap (snd cfg))[sensitiveData (fst cfg) := c]) oa = Some (map VNum xs)"
  using assms
  by (auto simp: inv_def intentOperation_def intentOperands_def intentOperandsRef_def getProp_def
      arrayAt_def lookup_def)

lemma execute_inv_eq:
  assumes "inv ia ps oa opname xs cfg" "active (fst cfg)"
    and sd: "heap (snd cfg) ! sensitiveData (fst cfg) = Obj [(''operands'', a), (''result'', b), (''userPreferences'', c)] False"
  shows "execute userState cfg =
    (case getUserPreferences userState of
       Inl e \<Rightarrow> (Inr \<lparr>value = None, error = Some (if instanceofError e then message e else ''Unknown error''),
                      operation = opname, completedAt = clock (snd cfg)\<rparr>, cfg)
     | Inr preferences \<Rightarrow>
        (case operations opname of
           None \<Rightarrow> (Inr \<lparr>value = None, error = Some (''Unknown operation: '' @ opname),
                          operation = opname, completedAt = clock (snd cfg)\<rparr>,
                     (fst cfg, (snd cfg)\<lparr>heap := (heap (snd cfg))[sensitiveData (fst cfg) :=
                        Obj [(''operands'', a), (''result'', b), (''userPreferences'', VPrefs preferences)] False]\<rparr>))
         | Some f \<Rightarrow>
            (case call_operation f oa xs preferences of
               Inl e \<Rightarrow> (Inr \<lparr>value = None, error = Some (if instanceofError e then message e else ''Unknown error''),
                              operation = opname, completedAt = clock (snd cfg)\<rparr>,
                     (fst cfg, (snd cfg)\<lparr>heap := (heap (snd cfg))[sensitiveData (fst cfg) :=
                        Obj [(''operands'', a), (''result'', b), (''userPreferences'', VPrefs preferences)] False]\<rparr>))
             | Inr v \<Rightarrow> (Inr \<lparr>value = Some v, error = None, operation = opname, completedAt = clock (snd cfg)\<rparr>,
                     (fst cfg, (snd cfg)\<lparr>heap := (heap (snd cfg))[sensitiveData (fst cfg) :=
                        Obj [(''operands'', a), (''result'', v), (''userPreferences'', VPrefs preferences)] False]\<rparr>)))))"
proof -
  have len: "sensitiveData (fst cfg) < length (heap (snd cfg))"
    using assms(1) by (simp add: inv_def)
  note sp = setProp_registry[OF len sd]
  have sp2: "setProp (sensitiveData (fst cfg)) ''result'' v
       ((heap (snd cfg))[sensitiveData (fst cfg) := Obj [(''operands'', a), (''result'', b), (''userPreferences'', w)] False])
     = Inr ((heap (snd cfg))[sensitiveData (fst cfg) := Obj [(''operands'', a), (''result'', v), (''userPreferences'', w)] False])" for v w
    using len by (simp add: setProp_def lookup_def)
  show ?thesis
    using assms(2)
    by (simp add: execute_def caught_def Let_def sp sp2 inv_reads[OF assms(1)]
        split: sum.splits option.splits)
qed


lemma execute_frame:
  "fst (snd (execute userState cfg)) = fst cfg"
  "clock (snd (snd (execute userState cfg))) = clock (snd cfg)"
  "gcCalls (snd (snd (execute userState cfg))) = gcCalls (snd cfg)"
  "unhandledRejections (snd (snd (execute userState cfg))) = unhandledRejections (snd cfg)"
  by (simp_all add: execute_def caught_def Let_def split: sum.splits option.splits)

lemma execute_inactive: "\<not> active (fst cfg) \<Longrightarrow> execute userState cfg = (Inl (JsError ''Calculator has been dissolved''), cfg)"
  by (simp add: execute_def)

lemma execute_inv:
  assumes "inv ia ps oa opname xs cfg"
  shows "inv ia ps oa opname xs (snd (execute userState cfg))"
    and "length (heap (snd (snd (execute userState cfg)))) = length (heap (snd cfg))"
proof -
  have "inv ia ps oa opname xs (snd (execute userState cfg)) \<and>
        length (heap (snd (snd (execute userState cfg)))) = length (heap (snd cfg))"
  proof (cases "active (fst cfg)")
    case False
    then show ?thesis using assms by (simp add: execute_inactive)
  next
    case True
    from assms obtain a b c where sd: "heap (snd cfg) ! sensitiveData (fst cfg) =
        Obj [(''operands'', a), (''result'', b), (''userPreferences'', c)] False"
      by (auto simp: inv_def)
    show ?thesis
      unfolding execute_inv_eq[OF assms True sd]
      using assms True
      by (auto simp: inv_def nth_list_update split: sum.splits option.splits)
  qed
  then show "inv ia ps oa opname xs (snd (execute userState cfg))"
    and "length (heap (snd (snd (execute userState cfg)))) = length (heap (snd cfg))"
    by simp_all
qed

lemma inv_clock [simp]:
  "inv ia ps oa opname xs (this, rt\<lparr>clock := t\<rparr>) = inv ia ps oa opname xs (this, rt)"
  by (simp add: inv_def)

lemma inv_unhandledRejections [simp]:
  "inv ia ps oa opname xs (this, rt\<lparr>unhandledRejections := es\<rparr>) = inv ia ps oa opname xs (this, rt)"
  by (simp add: inv_def)

lemma inv_timer_None:
  "inv ia ps oa opname xs (this, rt) \<Longrightarrow> inv ia ps oa opname xs (this\<lparr>dissolutionTimer := None\<rparr>, rt)"
  by (simp add: inv_def)

lemma dissolve_timer_None [simp]:
  "dissolve (this\<lparr>dissolutionTimer := None\<rparr>, rt) = dissolve (this, rt)"
  by (simp add: dissolve_def)

lemma advance_eq:
  assumes "inv ia ps oa opname xs cfg"
  shows "advance t cfg =
     (case dissolutionTimer (fst cfg) of
        None \<Rightarrow> (fst cfg, (snd cfg)\<lparr>clock := max t (clock (snd cfg))\<rparr>)
      | Some due \<Rightarrow>
          if due \<le> max t (clock (snd cfg))
          then (fst (snd (dissolve (fst cfg, (snd cfg)\<lparr>clock := max t (clock (snd cfg))\<rparr>))),
                (snd (snd (dissolve (fst cfg, (snd cfg)\<lparr>clock := max t (clock (snd cfg))\<rparr>))))
                  \<lparr>unhandledRejections := unhandledRejections (snd cfg) @
                     [JsTypeError (''Cannot assign to read only property '' @ fst (hd ps))]\<rparr>)
          else (fst cfg, (snd cfg)\<lparr>clock := max t (clock (snd cfg))\<rparr>))"
proof -
  have i: "inv ia ps oa opname xs (fst cfg, (snd cfg)\<lparr>clock := max t (clock (snd cfg))\<rparr>)"
    using assms by simp
  show ?thesis
    by (simp add: advance_def Let_def dissolve_inv_eq[OF i] split: option.splits)
qed

lemma dissolve_frame:
  assumes "inv ia ps oa opname xs cfg"
  shows "\<not> active (fst (snd (dissolve cfg)))"
    and "dissolutionTimer (fst (snd (dissolve cfg))) = None"
    and "sensitiveData (fst (snd (dissolve cfg))) = sensitiveData (fst cfg)"
    and "length (heap (snd (snd (dissolve cfg)))) = length (heap (snd cfg))"
    and "gcCalls (snd (snd (dissolve cfg))) = gcCalls (snd cfg)"
    and "clock (snd (snd (dissolve cfg))) = clock (snd cfg)"
    and "unhandledRejections (snd (snd (dissolve cfg))) = unhandledRejections (snd cfg)"
  unfolding dissolve_inv_eq[OF assms] by simp_all

lemma step_inv:
  assumes "inv ia ps oa opname xs cfg"
  shows "inv ia ps oa opname xs (step cfg c)"
    and "sensitiveData (fst (step cfg c)) = sensitiveData (fst cfg)"
    and "length (heap (snd (step cfg c))) = length (heap (snd cfg))"
    and "gcCalls (snd (step cfg c)) = gcCalls (snd cfg)"
    and "\<not> active (fst cfg) \<Longrightarrow> \<not> active (fst (step cfg c))"
proof -
  have i: "inv ia ps oa opname xs (fst cfg, snd cfg\<lparr>clock := t\<rparr>)" for t
    using assms by simp
  have "inv ia ps oa opname xs (step cfg c) \<and>
        sensitiveData (fst (step cfg c)) = sensitiveData (fst cfg) \<and>
        length (heap (snd (step cfg c))) = length (heap (snd cfg)) \<and>
        gcCalls (snd (step cfg c)) = gcCalls (snd cfg) \<and>
        (\<not> active (fst cfg) \<longrightarrow> \<not> active (fst (step cfg c)))"
  proof (cases c)
    case (Execute userState)
    then show ?thesis
      using execute_inv[OF assms, of userState] by (simp add: execute_frame)
  next
    case Dissolve
    then show ?thesis
      using dissolve_inv[OF assms] dissolve_frame[OF assms] by simp
  next
    case (Advance t)
    then show ?thesis
      using assms dissolve_inv[OF i] dissolve_frame[OF i]
      by (auto simp: advance_eq[OF assms] split: option.splits)
  qed
  then show "inv ia ps oa opname xs (step cfg c)"
    and "sensitiveData (fst (step cfg c)) = sensitiveData (fst cfg)"
    and "length (heap (snd (step cfg c))) = length (heap (snd cfg))"
    and "gcCalls (snd (step cfg c)) = gcCalls (snd cfg)"
    and "\<not> active (fst cfg) \<Longrightarrow> \<not> active (fst (step cfg c))"
    by simp_all
qed

lemma run_Nil [simp]: "run [] cfg = cfg"
  by (simp add: run_def)

lemma run_Cons [simp]: "run (c # calls) cfg = run calls (step cfg c)"
  by (simp add: run_def)

lemma run_append [simp]: "run (xs @ ys) cfg = run ys (run xs cfg)"
  by (simp add: run_def)

lemma run_inv:
  assumes "inv ia ps oa opname xs cfg"
  shows "inv ia ps oa opname xs (run calls cfg)"
    and "sensitiveData (fst (run calls cfg)) = sensitiveData (fst cfg)"
    and "length (heap (snd (run calls cfg))) = length (heap (snd cfg))"
    and "gcCalls (snd (run calls cfg)) = gcCalls (snd cfg)"
    and "\<not> active (fst cfg) \<Longrightarrow> \<not> active (fst (run calls cfg))"
proof -
  have "inv ia ps oa opname xs (run calls cfg) \<and>
        sensitiveData (fst (run calls cfg)) = sensitiveData (fst cfg) \<and>
        length (heap (snd (run calls cfg))) = length (heap (snd cfg)) \<and>
        gcCalls (snd (run calls cfg)) = gcCalls (snd cfg) \<and>
        (\<not> active (fst cfg) \<longrightarrow> \<not> active (fst (run calls cfg)))"
    using assms
  proof (induction calls arbitrary: cfg)
    case Nil
    then show ?case by simp
  next
    case (Cons c calls)
    from step_inv[OF Cons.prems, of c] Cons.IH[of "step cfg c"]
    show ?case by simp
  qed
  then show "inv ia ps oa opname xs (run calls cfg)"
    and "sensitiveData (fst (run calls cfg)) = sensitiveData (fst cfg)"
    and "length (heap (snd (run calls cfg))) = length (heap (snd cfg))"
    and "gcCalls (snd (run calls cfg)) = gcCalls (snd cfg)"
    and "\<not> active (fst cfg) \<Longrightarrow> \<not> active (fst (run calls cfg))"
    by simp_all
qed

lemma inv_registry:
  "inv ia ps oa opname xs cfg \<Longrightarrow> \<not> active (fst cfg) \<Longrightarrow> registry cfg = Some emptyRegistry"
  by (simp add: inv_def registry_def getSensitiveData_def lookup_def)

lemma manifest_inv:
  assumes "isIntent (heap rt) ia opname xs"
  obtains cfg ps oa fr where
    "manifestCalculator ia options rt = Inr cfg"
    "inv ia ps oa opname xs cfg"
    "active (fst cfg)"
    "manifestedAt (fst cfg) = clock rt"
    "clock (snd cfg) = clock rt"
    "gcCalls (snd cfg) = gcCalls rt"
    "0 < maxLifetime (fst cfg)"
    "dissolutionTimer (fst cfg) =
       Some (clock rt + (if maxLifetime (fst cfg) \<le> TIMEOUT_MAX then maxLifetime (fst cfg) else 1))"
    "maxLifetime (fst cfg) =
       (case options of None \<Rightarrow> DEFAULT_MAX_LIFETIME
        | Some opts \<Rightarrow> (case optMaxLifetime opts of None \<Rightarrow> DEFAULT_MAX_LIFETIME
            | Some m \<Rightarrow> if m = 0 then DEFAULT_MAX_LIFETIME else m))"
    "purpose (fst cfg) = opname"
    "heap rt ! ia = Obj ps fr" "ia < length (heap rt)" "oa < length (heap rt)"
    "heap rt ! oa = Arr (map VNum xs)"
    "unhandledRejections (snd cfg) = unhandledRejections rt"
proof -
  from assms obtain ps fr oa where h: "ia < length (heap rt)" "heap rt ! ia = Obj ps fr"
    "map_of ps ''operation'' = Some (VStr opname)" "map_of ps ''operands'' = Some (VRef oa)"
    "oa < length (heap rt)" "heap rt ! oa = Arr (map VNum xs)"
    by (rule isIntentD)
  define maxL where "maxL = (case options of None \<Rightarrow> DEFAULT_MAX_LIFETIME
     | Some opts \<Rightarrow> (case optMaxLifetime opts of None \<Rightarrow> DEFAULT_MAX_LIFETIME
         | Some m \<Rightarrow> if m = 0 then DEFAULT_MAX_LIFETIME else m))"
  have maxL: "0 < maxL"
    by (auto simp: maxL_def DEFAULT_MAX_LIFETIME_def split: option.splits)
  define cfg where "cfg =
     (\<lparr>calcId = uuidCount rt, purpose = opname, manifestedAt = clock rt, maxLifetime = maxL,
       intent = ia, active = True,
       dissolutionTimer = Some (clock rt + (if maxL \<le> TIMEOUT_MAX then maxL else 1)),
       ephemeralState = \<lparr>data = ia, expiresAt = clock rt + maxL, taskId = Suc (uuidCount rt)\<rparr>,
       sensitiveData = length (heap rt)\<rparr>,
      rt\<lparr>heap := (heap rt)[ia := Obj ps True] @
           [Obj [(''operands'', VRef (Suc (length (heap rt)))), (''result'', VNull), (''userPreferences'', VNull)] False,
            Arr (map VNum xs)],
         uuidCount := Suc (Suc (uuidCount rt))\<rparr>)"
  have oa_ne: "oa \<noteq> ia" using h by auto
  have m: "manifestCalculator ia options rt = Inr cfg"
    using h oa_ne
    by (simp add: manifestCalculator_def new_MomentaryCalculatorImpl_def alloc_def randomUUID_def
        createEphemeralState_def freeze_def lookup_def intentOperation_def intentOperands_def
        intentOperandsRef_def arrayAt_def getProp_def setProp_def emptyRegistry_def Let_def
        nth_append nth_list_update cfg_def maxL_def[symmetric] list_update_append setTimeout_def
        maxL not_le)
  have i: "inv ia ps oa opname xs cfg"
    using h oa_ne by (auto simp: inv_def cfg_def nth_append nth_list_update)
  show thesis
    by (rule that[OF m i]) (use maxL h in \<open>simp_all add: cfg_def maxL_def\<close>)
qed

lemma example_isIntent:
  "isIntent (heap example_runtime) 0 ''divide'' [Finite 10, Finite 0]"
  by (simp add: isIntent_def example_runtime_def getProp_def intentOperands_def
      intentOperandsRef_def arrayAt_def lookup_def)



lemma manifest_active:
  assumes "isIntent (heap rt) ia opname xs"
  shows "\<exists>cfg. manifestCalculator ia options rt = Inr cfg \<and> active (fst cfg) \<and> clock (snd cfg) = clock rt"
  using manifest_inv[OF assms, of options] by metis

lemma reduce_from_division:
  "reduce_from (\<lambda>quotient value index.
        if index = 0 then Inr value
        else if value = Finite 0 then Inl (JsError ''Division by zero'')
        else Inr (fdiv quotient value)) acc (Suc i) vs =
     (if Finite 0 \<in> set vs then Inl (JsError ''Division by zero'') else Inr (foldl fdiv acc vs))"
proof (induction vs arbitrary: acc i)
  case Nil
  show ?case by simp
next
  case (Cons v vs)
  show ?case
  proof (cases "v = Finite 0")
    case True
    then show ?thesis by simp
  next
    case False
    then show ?thesis using Cons.IH[of "fdiv acc v" "Suc i"] by simp
  qed
qed

lemma performDivision_eq:
  "performDivision (x # rest) preferences =
     (if Finite 0 \<in> set rest then Inl (JsError ''Division by zero'')
      else Inr (case precision preferences of
                  Some p \<Rightarrow> fdiv (Math_round (fmul (foldl fdiv x rest) (Math_pow10 p))) (Math_pow10 p)
                | None \<Rightarrow> foldl fdiv x rest))"
  by (simp add: performDivision_def createMomentaryFunction_def reduce1_def reduce_from_division)

lemma example_manifest:
  "manifestCalculator 0 None example_runtime =
     Inr (\<lparr>calcId = 0, purpose = ''divide'', manifestedAt = 0, maxLifetime = 30000, intent = 0,
           active = True, dissolutionTimer = Some 30000,
           ephemeralState = \<lparr>data = 0, expiresAt = 30000, taskId = 1\<rparr>, sensitiveData = 2\<rparr>,
          \<lparr>heap = [Obj [(''operation'', VStr ''divide''), (''operands'', VRef 1)] True,
                   Arr [VNum (Finite 10), VNum (Finite 0)],
                   Obj [(''operands'', VRef 3), (''result'', VNull), (''userPreferences'', VNull)] False,
                   Arr [VNum (Finite 10), VNum (Finite 0)]],
           clock = 0, gcExposed = True, gcCalls = 0, uuidCount = 2, unhandledRejections = []\<rparr>)"
  by (simp add: manifestCalculator_def new_MomentaryCalculatorImpl_def alloc_def randomUUID_def
      createEphemeralState_def freeze_def lookup_def intentOperation_def intentOperands_def
      intentOperandsRef_def arrayAt_def getProp_def setProp_def emptyRegistry_def Let_def
      example_runtime_def DEFAULT_MAX_LIFETIME_def setTimeout_def TIMEOUT_MAX_def)

section \<open>Lemmas on rounding and on the operations\<close>

lemma floorlog_eq:
  assumes "2 ^ w \<le> n" "n < 2 ^ Suc w"
  shows "floorlog 2 n = Suc w"
proof -
  have "floorlog 2 n \<le> Suc w"
    using assms(2) by (intro floorlog_leI) simp_all
  moreover have "Suc w \<le> floorlog 2 n"
    using assms(1) by (intro floorlog_geI) simp_all
  ultimately show ?thesis by simp
qed

lemma pow2_pos [simp]: "0 < pow2 g"
  by (simp add: pow2_def)

lemma pow2_diff: "pow2 (int a - int b) = 2 ^ a / 2 ^ b"
proof (cases "b \<le> a")
  case True
  then have "pow2 (int a - int b) = 2 ^ (a - b)"
    by (simp add: pow2_def nat_diff_distrib')
  then show ?thesis using True by (simp add: power_diff)
next
  case False
  then have "pow2 (int a - int b) = 1 / 2 ^ (b - a)"
    by (simp add: pow2_def nat_diff_distrib')
  also have "\<dots> = (2::rat) ^ a / 2 ^ b"
    using False by (simp add: power_diff field_simps)
  finally show ?thesis .
qed

lemma round_half_even_of_int [simp]: "round_half_even (of_int m) = m"
  by (simp add: round_half_even_def)

lemma ilog2_binade:
  assumes "2 ^ e \<le> a" "a < 2 ^ Suc e"
  shows "ilog2 a = int e"
proof -
  have "(1::rat) \<le> 2 ^ e" by simp
  with assms(1) have one: "1 \<le> a" by linarith
  have "(2::int) ^ e \<le> \<lfloor>a\<rfloor>"
    using assms(1) by (simp add: le_floor_iff)
  then have lo: "(2::nat) ^ e \<le> nat \<lfloor>a\<rfloor>"
    by (simp add: le_nat_iff)
  have "\<lfloor>a\<rfloor> < 2 ^ Suc e"
    using assms(2) by (simp add: floor_less_iff)
  moreover have "0 \<le> \<lfloor>a\<rfloor>"
    using one by simp
  ultimately have hi: "nat \<lfloor>a\<rfloor> < 2 ^ Suc e"
    by (simp add: nat_less_iff)
  show ?thesis
    using one floorlog_eq[OF lo hi] by (simp add: ilog2_def)
qed

lemma rnd64_binade:
  assumes "2 ^ e \<le> \<bar>q\<bar>" "\<bar>q\<bar> < 2 ^ Suc e"
  shows "rnd64 q =
     (let v = of_int (round_half_even (\<bar>q\<bar> * 2 ^ 52 / 2 ^ e)) * 2 ^ e / 2 ^ 52
      in if 2 ^ 1024 \<le> v then (if 0 < q then PosInf else NegInf) else Finite (sgn q * v))"
proof -
  have "(0::rat) < 2 ^ e" by simp
  with assms(1) have "0 < \<bar>q\<bar>" by linarith
  then have nz: "q \<noteq> 0" by auto
  have g: "max (ilog2 \<bar>q\<bar>) (- 1022) - 52 = int e - int 52"
    using ilog2_binade[OF assms] by simp
  have p: "pow2 1024 = 2 ^ 1024"
    by (simp add: pow2_def)
  show ?thesis
    unfolding rnd64_def Let_def g pow2_diff p using nz by simp
qed

lemma pow_quot: "e \<le> c \<Longrightarrow> (x::rat) * 2 ^ c / 2 ^ e = x * 2 ^ (c - e)"
  by (simp add: power_diff)

lemma rnd64_int:
  assumes "\<bar>k\<bar> \<le> 2 ^ 53"
  shows "rnd64 (of_int k) = Finite (of_int k)"
proof (cases "k = 0")
  case True
  then show ?thesis by (simp add: rnd64_def)
next
  case False
  define n where "n = nat \<bar>k\<bar>"
  define e where "e = floorlog 2 n - 1"
  have n: "0 < n" "int n = \<bar>k\<bar>" using False by (simp_all add: n_def)
  have b: "2 ^ e \<le> n" "n < 2 ^ Suc e"
    using floorlog_bounds[of n 2] n(1) floorlog_eq_zero_iff[of 2 n]
    by (auto simp: e_def)
  have a: "\<bar>of_int k :: rat\<bar> = of_nat n"
    using n(2) by (metis of_int_abs of_int_of_nat_eq)
  have lo: "(2::rat) ^ e \<le> \<bar>of_int k\<bar>"
    unfolding a using b(1) by (metis of_nat_le_iff of_nat_numeral of_nat_power)
  have hi: "\<bar>of_int k :: rat\<bar> < 2 ^ Suc e"
    unfolding a using b(2) by (metis of_nat_less_iff of_nat_numeral of_nat_power)
  have n53: "n \<le> 2 ^ 53"
    using assms n(2) by (metis of_nat_le_iff of_nat_numeral of_nat_power)
  have e53: "e \<le> 53"
  proof (rule ccontr)
    assume "\<not> e \<le> 53"
    then have "(2::nat) ^ 54 \<le> 2 ^ e" by (intro power_increasing) simp_all
    with b(1) n53 show False by simp
  qed
  have v: "\<exists>m. (of_nat n :: rat) * 2 ^ 52 / 2 ^ e = of_int m"
  proof (cases "e \<le> 52")
    case True
    have "(of_nat n :: rat) * 2 ^ 52 / 2 ^ e = of_nat n * 2 ^ (52 - e)"
      by (rule pow_quot[OF True])
    also have "\<dots> = of_int (int n * 2 ^ (52 - e))"
      by simp
    finally show ?thesis by blast
  next
    case False
    with e53 have e: "e = 53" by simp
    with b(1) n53 have "n = 2 ^ 53" by simp
    then have "(of_nat n :: rat) * 2 ^ 52 / 2 ^ e = of_int (2 ^ 52)"
      by (simp add: e)
    then show ?thesis by blast
  qed
  then obtain m where m: "(of_nat n :: rat) * 2 ^ 52 / 2 ^ e = of_int m" ..
  have bk: "of_int m * 2 ^ e / 2 ^ 52 = (of_nat n :: rat)"
    using m by (simp add: field_simps)
  have small: "\<not> (2::rat) ^ 1024 \<le> of_nat n"
  proof -
    have "(of_nat n :: rat) \<le> 2 ^ 53"
      using n53 by (metis of_nat_le_iff of_nat_numeral of_nat_power)
    also have "\<dots> < 2 ^ 1024" by (intro power_strict_increasing) simp_all
    finally show ?thesis by simp
  qed
  have sg: "sgn (of_int k :: rat) * of_nat n = of_int k"
    using a by (metis mult.commute abs_sgn mult_sgn_abs)
  have r: "round_half_even (of_nat n * 2 ^ 52 / 2 ^ e) = m"
    by (simp only: m round_half_even_of_int)
  show ?thesis
    unfolding rnd64_binade[OF lo hi] a r Let_def bk
    using small sg by simp
qed

lemma fadd_int:
  "\<bar>a + b\<bar> \<le> 2 ^ 53 \<Longrightarrow> fadd (Finite (of_int a)) (Finite (of_int b)) = Finite (of_int (a + b))"
  using rnd64_int[of "a + b"] by simp

lemma fmul_int:
  "\<bar>a * b\<bar> \<le> 2 ^ 53 \<Longrightarrow> fmul (Finite (of_int a)) (Finite (of_int b)) = Finite (of_int (a * b))"
  using rnd64_int[of "a * b"] by simp

lemma foldl_fadd_int:
  "\<bar>s\<bar> + sum_list (map abs ks) \<le> 2 ^ 53 \<Longrightarrow>
   foldl fadd (Finite (of_int s)) (integers ks) = Finite (of_int (s + sum_list ks))"
proof (induction ks arbitrary: s)
  case Nil
  then show ?case by (simp add: integers_def)
next
  case (Cons k ks)
  have nn: "0 \<le> sum_list (map abs ks)"
    by (induction ks) simp_all
  have 1: "\<bar>s + k\<bar> \<le> 2 ^ 53"
    using Cons.prems nn by simp
  have 2: "\<bar>s + k\<bar> + sum_list (map abs ks) \<le> 2 ^ 53"
    using Cons.prems by simp
  from Cons.IH[OF 2] fadd_int[OF 1] show ?case
    by (simp add: integers_def add.assoc)
qed

lemma prod_list_max_ge1: "1 \<le> prod_list (map (\<lambda>k. max 1 \<bar>k\<bar>) (ks :: int list))"
proof (induction ks)
  case Nil
  show ?case by simp
next
  case (Cons k ks)
  have "1 * 1 \<le> max 1 \<bar>k\<bar> * prod_list (map (\<lambda>k. max 1 \<bar>k\<bar>) ks)"
    using Cons.IH by (intro mult_mono) simp_all
  then show ?case by simp
qed

lemma max_abs_mult: "max 1 \<bar>p * k\<bar> \<le> max 1 \<bar>p\<bar> * max 1 \<bar>k :: int\<bar>"
proof -
  have "\<bar>p * k\<bar> = \<bar>p\<bar> * \<bar>k\<bar>" by (simp add: abs_mult)
  also have "\<dots> \<le> max 1 \<bar>p\<bar> * max 1 \<bar>k\<bar>"
    by (intro mult_mono) simp_all
  finally have a: "\<bar>p * k\<bar> \<le> max 1 \<bar>p\<bar> * max 1 \<bar>k\<bar>" .
  have "1 * 1 \<le> max 1 \<bar>p\<bar> * max 1 \<bar>k\<bar>"
    by (intro mult_mono) simp_all
  with a show ?thesis by simp
qed

lemma foldl_fmul_int:
  "max 1 \<bar>p\<bar> * prod_list (map (\<lambda>k. max 1 \<bar>k\<bar>) ks) \<le> 2 ^ 53 \<Longrightarrow>
   foldl fmul (Finite (of_int p)) (integers ks) = Finite (of_int (p * prod_list ks))"
proof (induction ks arbitrary: p)
  case Nil
  then show ?case by (simp add: integers_def)
next
  case (Cons k ks)
  let ?P = "prod_list (map (\<lambda>k. max 1 \<bar>k\<bar>) ks)"
  have P: "1 \<le> ?P" by (rule prod_list_max_ge1)
  have m: "max 1 \<bar>p * k\<bar> \<le> max 1 \<bar>p\<bar> * max 1 \<bar>k\<bar>" by (rule max_abs_mult)
  have "max 1 \<bar>p * k\<bar> * ?P \<le> (max 1 \<bar>p\<bar> * max 1 \<bar>k\<bar>) * ?P"
    using m P by (intro mult_right_mono) simp_all
  also have "\<dots> \<le> 2 ^ 53"
    using Cons.prems by (simp add: mult.assoc)
  finally have 2: "max 1 \<bar>p * k\<bar> * ?P \<le> 2 ^ 53" .
  have "max 1 \<bar>p * k\<bar> * 1 \<le> max 1 \<bar>p * k\<bar> * ?P"
    using P by (intro mult_left_mono) simp_all
  with 2 have 1: "\<bar>p * k\<bar> \<le> 2 ^ 53" by simp
  from Cons.IH[OF 2] fmul_int[OF 1] show ?case
    by (simp add: integers_def mult.assoc)
qed

lemma performAddition_eq:
  "performAddition operands preferences = Inr (foldl fadd (Finite 0) operands)"
  by (simp add: performAddition_def createMomentaryFunction_def)

lemma performMultiplication_eq:
  "performMultiplication operands preferences = Inr (foldl fmul (Finite 1) operands)"
  by (simp add: performMultiplication_def createMomentaryFunction_def)

lemma performAddition_int:
  assumes "sum_list (map abs ks) \<le> 2 ^ 53"
  shows "performAddition (integers ks) preferences = Inr (Finite (of_int (sum_list ks)))"
  using foldl_fadd_int[of 0 ks] assms by (simp add: performAddition_eq)

lemma performMultiplication_int:
  assumes "prod_list (map (\<lambda>k. max 1 \<bar>k\<bar>) ks) \<le> 2 ^ 53"
  shows "performMultiplication (integers ks) preferences = Inr (Finite (of_int (prod_list ks)))"
  using foldl_fmul_int[of 1 ks] assms by (simp add: performMultiplication_eq)

lemma mset_sum_list_eq:
  "mset ks' = mset ks \<Longrightarrow> sum_list (map f ks') = (sum_list (map f ks) :: int)"
  by (metis mset_map sum_mset_sum_list)

lemma mset_prod_list_eq:
  "mset ks' = mset ks \<Longrightarrow> prod_list (map f ks') = (prod_list (map f ks) :: int)"
  by (metis mset_map prod_mset_prod_list)

lemma floor_divide_numeral_rat [simp]:
  "\<lfloor>(numeral a :: rat) / numeral b\<rfloor> = numeral a div numeral b"
  using floor_divide_of_int_eq[of "numeral a" "numeral b", where ?'a = rat] by simp

lemma rnd64_small [simp]:
  "rnd64 0 = Finite 0" "rnd64 1 = Finite 1" "rnd64 (- 2) = Finite (- 2)"
  "rnd64 100 = Finite 100" "rnd64 9007199254740992 = Finite 9007199254740992"
  "rnd64 (- 9007199254740992) = Finite (- 9007199254740992)"
  using rnd64_int[of 0] rnd64_int[of 1] rnd64_int[of "- 2"] rnd64_int[of 100]
    rnd64_int[of 9007199254740992] rnd64_int[of "- 9007199254740992"]
  by simp_all

lemma rnd64_2p53_plus_1: "rnd64 9007199254740993 = Finite 9007199254740992"
  using rnd64_binade[of 53 9007199254740993]
  by (simp add: round_half_even_def Let_def)

lemma rnd64_minus_5_2: "rnd64 (- (5 / 2)) = Finite (- (5 / 2))"
  using rnd64_binade[of 1 "- (5 / 2)"]
  by (simp add: round_half_even_def Let_def)

lemma rnd64_22_7: "rnd64 (22 / 7) = Finite (7077085128725065 / 2251799813685248)"
  using rnd64_binade[of 1 "22 / 7"]
  by (simp add: round_half_even_def Let_def)

lemma rnd64_22_7_100:
  "rnd64 (176927128218126625 / 562949953421312) = Finite (5528972756816457 / 17592186044416)"
  using rnd64_binade[of 8 "176927128218126625 / 562949953421312"]
  by (simp add: round_half_even_def Let_def)

lemma divide_22_7:
  "performDivision [Finite 22, Finite 7] \<lparr>precision = Some 2, roundingMode = None\<rparr>
     = Inr (rnd64 (314 / 100))"
  by (simp add: performDivision_eq Math_pow10_def rnd64_22_7 rnd64_22_7_100)

lemma floor_minus_divide_numeral_rat [simp]:
  "\<lfloor>- (numeral a :: rat) / numeral b\<rfloor> = - numeral a div numeral b"
  using floor_divide_of_int_eq[of "- numeral a" "numeral b", where ?'a = rat] by simp

lemma floor_minus_divide_numeral_rat' [simp]:
  "\<lfloor>- ((numeral a :: rat) / numeral b)\<rfloor> = - numeral a div numeral b"
  using floor_minus_divide_numeral_rat[of a b] by simp

lemma round_half_even_numeral [simp]: "round_half_even (numeral n) = numeral n"
  using round_half_even_of_int[of "numeral n"] by simp

lemma Math_round_nearest:
  "\<bar>of_int \<lfloor>r + 1 / 2\<rfloor> - r\<bar> \<le> 1 / 2" for r :: rat
proof -
  have "of_int \<lfloor>r + 1 / 2\<rfloor> \<le> r + 1 / 2" "r + 1 / 2 < of_int \<lfloor>r + 1 / 2\<rfloor> + 1"
    by linarith+
  then show ?thesis by linarith
qed

lemma Math_round_tie:
  "r - of_int \<lfloor>r\<rfloor> = 1 / 2 \<Longrightarrow> \<lfloor>r + 1 / 2\<rfloor> = \<lfloor>r\<rfloor> + 1" for r :: rat
proof -
  assume "r - of_int \<lfloor>r\<rfloor> = 1 / 2"
  then have "r + 1 / 2 = of_int (\<lfloor>r\<rfloor> + 1)" by simp
  then show ?thesis by (metis floor_of_int)
qed

lemma rnd64_2p1023: "rnd64 (2 ^ 1023) = Finite (2 ^ 1023)"
  using rnd64_binade[of 1023 "2 ^ 1023"]
  by (simp add: Let_def)

lemma rnd64_2p1024: "rnd64 (2 ^ 1023 * 2) = PosInf"
  using rnd64_binade[of 1024 "2 ^ 1023 * 2"]
  by (simp add: Let_def)

lemma multiply_overflow:
  "performMultiplication [Finite (2 ^ 1023), Finite 2, Finite 0] noPreferences = Inr NaN \<and>
   performMultiplication [Finite 0, Finite (2 ^ 1023), Finite 2] noPreferences = Inr (Finite 0)"
  using rnd64_2p1023 rnd64_2p1024
  by (simp add: performMultiplication_eq signed_inf_def)

section \<open>The claims on the lifecycle\<close>

text \<open>
  Claim C1. For every instance and every sequence of calls, once \<open>dissolve()\<close> has been
  invoked, \<open>getSensitiveData()\<close> returns a record whose three slots are null:
  \<open>{operands: null, result: null, userPreferences: null}\<close>, whatever was executed before
  and whatever is called afterwards.
\<close>

theorem registry_null_after_dissolve:
  assumes "isIntent (heap rt) ia opname xs"
  shows "\<exists>cfg. manifestCalculator ia options rt = Inr cfg \<and>
           registry (run (before @ Dissolve # after) cfg) = Some emptyRegistry"
proof -
  from assms obtain cfg ps oa where m: "manifestCalculator ia options rt = Inr cfg"
    and i: "inv ia ps oa opname xs cfg"
    by (rule manifest_inv)
  let ?c1 = "run before cfg"
  let ?c2 = "step ?c1 Dissolve"
  have i1: "inv ia ps oa opname xs ?c1" by (rule run_inv(1)[OF i])
  have i2: "inv ia ps oa opname xs ?c2" by (rule step_inv(1)[OF i1])
  have a2: "\<not> active (fst ?c2)" using dissolve_frame(1)[OF i1] by simp
  have "registry (run after ?c2) = Some emptyRegistry"
    by (rule inv_registry[OF run_inv(1)[OF i2] run_inv(5)[OF i2 a2]])
  with m show ?thesis by simp
qed

theorem registry_null_after_dissolve_witness:
  "isIntent (heap example_runtime) 0 ''divide'' [Finite 10, Finite 0] \<and>
   (\<exists>cfg. manifestCalculator 0 None example_runtime = Inr cfg \<and>
      registry (run ([Execute (Inr None), Execute (Inr None)] @ Dissolve # [Execute (Inr None)]) cfg)
        = Some emptyRegistry)"
  using registry_null_after_dissolve[OF example_isIntent] example_isIntent by blast




text \<open>
  Claim C3. For every manifested instance, in whatever state, \<open>dissolve()\<close> sweeps the
  registry and then \<open>ephemeralState.data\<close>, which is the caller's intent, frozen at
  construction. The promise of \<open>dissolve()\<close> rejects with a \<open>TypeError\<close> on the first
  property of the frozen intent; by then \<open>active\<close> is false, the timeout is cleared and
  the three registry slots are null. The statements after the sweep are never reached:
  \<open>global.gc\<close> is not called and \<open>this.sensitiveData\<close> still refers to the object made at
  construction (no new object is allocated).
\<close>

theorem dissolve_rejects_after_nulling:
  assumes "isIntent (heap rt) ia opname xs"
  shows "\<exists>cfg. manifestCalculator ia options rt = Inr cfg \<and>
     (let cfg' = run calls cfg; res = dissolve cfg'
      in data (ephemeralState (fst cfg')) = ia \<and> isFrozen (heap (snd cfg')) ia \<and>
         (\<exists>key. fst res = Inl (JsTypeError (''Cannot assign to read only property '' @ key))) \<and>
         \<not> active (fst (snd res)) \<and> dissolutionTimer (fst (snd res)) = None \<and>
         registry (snd res) = Some emptyRegistry \<and>
         getSensitiveData (snd res) = getSensitiveData cfg \<and>
         length (heap (snd (snd res))) = length (heap (snd cfg)) \<and>
         gcCalls (snd (snd res)) = gcCalls rt)"
proof -
  from assms obtain cfg ps oa where m: "manifestCalculator ia options rt = Inr cfg"
    and i: "inv ia ps oa opname xs cfg" and gc: "gcCalls (snd cfg) = gcCalls rt"
    by (rule manifest_inv)
  let ?cfg' = "run calls cfg"
  note r = run_inv[OF i, of calls]
  note d = dissolve_frame[OF r(1)]
  have fz: "data (ephemeralState (fst ?cfg')) = ia \<and> isFrozen (heap (snd ?cfg')) ia"
    using r(1) by (simp add: inv_def isFrozen_def lookup_def)
  have rej: "\<exists>key. fst (dissolve ?cfg') = Inl (JsTypeError (''Cannot assign to read only property '' @ key))"
    unfolding dissolve_inv_eq[OF r(1)] by simp
  show ?thesis
    using m fz rej d r(2,3,4) gc inv_registry[OF dissolve_inv[OF r(1)] d(1)]
    by (simp add: Let_def getSensitiveData_def)
qed

theorem dissolve_rejects_after_nulling_witness:
  "isIntent (heap example_runtime) 0 ''divide'' [Finite 10, Finite 0] \<and>
   (\<exists>cfg. manifestCalculator 0 None example_runtime = Inr cfg \<and>
      (\<exists>key. fst (dissolve (run [Execute (Inr None)] cfg)) =
           Inl (JsTypeError (''Cannot assign to read only property '' @ key))) \<and>
      registry (snd (dissolve (run [Execute (Inr None)] cfg))) = Some emptyRegistry \<and>
      gcCalls (snd (snd (dissolve (run [Execute (Inr None)] cfg)))) = 0)"
proof -
  from dissolve_rejects_after_nulling[OF example_isIntent, of None "[Execute (Inr None)]"]
  show ?thesis using example_isIntent
    by (auto simp: Let_def example_runtime_def)
qed

text \<open>
  Claim C4 says that a failure of the broker's read propagates to the caller of
  \<open>execute()\<close> as a rejection. It does not: the read is awaited inside the \<open>try\<close> block.
  For the intent \<open>{operation: 'divide', operands: [10, 0]}\<close> and a read that rejects with
  \<open>Error('broker unavailable')\<close>, \<open>execute()\<close> resolves with an error result.
\<close>

theorem broker_failure_caught_counterexample:
  "fst (execute (Inl (JsError ''broker unavailable''))
          (projr (manifestCalculator 0 None example_runtime))) =
     Inr \<lparr>value = None, error = Some ''broker unavailable'', operation = ''divide'', completedAt = 0\<rparr>
   \<and> fst (execute (Inl (JsError ''broker unavailable''))
          (projr (manifestCalculator 0 None example_runtime))) \<noteq> Inl (JsError ''broker unavailable'')"
  by (simp add: example_manifest execute_def caught_def getUserPreferences_def intentOperation_def
      getProp_def lookup_def)

text \<open>
  Claim C4, amended. For every \<open>execute()\<close> on an active instance, a failure \<open>e\<close> of the
  broker's read is caught: \<open>execute()\<close> resolves with a result that has no value, whose
  \<open>error\<close> is the message of \<open>e\<close> (or \<open>'Unknown error'\<close> when \<open>e\<close> is no \<open>Error\<close>), with the
  operation and the time. The instance is left exactly as it was; the read is not
  retried and nothing is substituted for it.
\<close>

theorem broker_failure_becomes_result:
  assumes "isIntent (heap rt) ia opname xs"
  shows "\<exists>cfg. manifestCalculator ia options rt = Inr cfg \<and>
     (let cfg' = run calls cfg
      in active (fst cfg') \<longrightarrow>
         execute (Inl e) cfg' =
           (Inr \<lparr>value = None,
                 error = Some (if instanceofError e then message e else ''Unknown error''),
                 operation = opname, completedAt = clock (snd cfg')\<rparr>, cfg'))"
proof -
  from assms obtain cfg ps oa where m: "manifestCalculator ia options rt = Inr cfg"
    and i: "inv ia ps oa opname xs cfg"
    by (rule manifest_inv)
  note r = run_inv(1)[OF i, of calls]
  have "execute (Inl e) (run calls cfg) =
           (Inr \<lparr>value = None,
                 error = Some (if instanceofError e then message e else ''Unknown error''),
                 operation = opname, completedAt = clock (snd (run calls cfg))\<rparr>, run calls cfg)"
    if "active (fst (run calls cfg))"
    using that inv_reads(1)[OF r]
    by (simp add: execute_def caught_def getUserPreferences_def)
  with m show ?thesis by (simp add: Let_def)
qed

theorem broker_failure_becomes_result_witness:
  "isIntent (heap example_runtime) 0 ''divide'' [Finite 10, Finite 0] \<and>
   (\<exists>cfg. manifestCalculator 0 None example_runtime = Inr cfg \<and> active (fst cfg) \<and>
      execute (Inl (JsError ''broker unavailable'')) cfg =
        (Inr \<lparr>value = None, error = Some ''broker unavailable'',
              operation = ''divide'', completedAt = clock (snd cfg)\<rparr>, cfg))"
proof -
  from manifest_active[OF example_isIntent, of None]
  obtain cfg where "manifestCalculator 0 None example_runtime = Inr cfg" "active (fst cfg)"
    by auto
  with broker_failure_becomes_result[OF example_isIntent, of None "[]" "JsError ''broker unavailable''"]
  show ?thesis using example_isIntent by (auto simp: Let_def)
qed




text \<open>
  Claim C6 says that \<open>hasResidualData()\<close> is true exactly when a registry slot is not
  null. Right after the manifestation of \<open>{operation: 'divide', operands: [10, 0]}\<close> the
  slot \<open>operands\<close> holds the copied array, and \<open>hasResidualData()\<close> is false.
\<close>

theorem hasResidualData_counterexample:
  "getProp (heap (snd (projr (manifestCalculator 0 None example_runtime))))
      (getSensitiveData (projr (manifestCalculator 0 None example_runtime))) ''operands'' = Some (VRef 3)
   \<and> isActive (projr (manifestCalculator 0 None example_runtime))
   \<and> \<not> hasResidualData (projr (manifestCalculator 0 None example_runtime))"
  by (simp add: example_manifest getProp_def lookup_def getSensitiveData_def hasResidualData_def
      isActive_def)

text \<open>
  Claim C6, amended. \<open>hasResidualData()\<close> returns false for every instance at every
  point of its life, whatever the registry holds; once the instance is no longer active
  the three slots are null, so there the answer agrees with the registry.
\<close>

theorem hasResidualData_constant:
  assumes "isIntent (heap rt) ia opname xs"
  shows "\<exists>cfg. manifestCalculator ia options rt = Inr cfg \<and>
     (let cfg' = run calls cfg
      in \<not> hasResidualData cfg' \<and>
         (\<not> isActive cfg' \<longrightarrow> registry cfg' = Some emptyRegistry))"
proof -
  from assms obtain cfg ps oa where m: "manifestCalculator ia options rt = Inr cfg"
    and i: "inv ia ps oa opname xs cfg"
    by (rule manifest_inv)
  from m inv_registry[OF run_inv(1)[OF i, of calls]] show ?thesis
    by (simp add: Let_def hasResidualData_def isActive_def)
qed

theorem hasResidualData_constant_witness:
  "isIntent (heap example_runtime) 0 ''divide'' [Finite 10, Finite 0] \<and>
   (\<exists>cfg. manifestCalculator 0 None example_runtime = Inr cfg \<and>
      \<not> hasResidualData (run [Execute (Inr None), Dissolve] cfg) \<and>
      \<not> isActive (run [Execute (Inr None), Dissolve] cfg) \<and>
      registry (run [Execute (Inr None), Dissolve] cfg) = Some emptyRegistry)"
proof -
  from example_isIntent
  obtain cfg ps oa where cfg: "manifestCalculator 0 None example_runtime = Inr cfg"
    and i: "inv 0 ps oa ''divide'' [Finite 10, Finite 0] cfg"
    by (rule manifest_inv)
  have "\<not> isActive (run [Execute (Inr None), Dissolve] cfg)"
    using dissolve_frame(1)[OF execute_inv(1)[OF i, of "Inr None"]]
    by (simp add: isActive_def)
  with hasResidualData_constant[OF example_isIntent, of None "[Execute (Inr None), Dissolve]"] cfg
  show ?thesis using example_isIntent
    by (simp add: Let_def)
qed

text \<open>
  Claim C7. \<open>dissolve()\<close> is idempotent: for every instance in whatever state, a second
  \<open>dissolve()\<close> after a first one has the same outcome and leaves the same state as the
  first alone: inactive, the timeout cleared, the three registry slots null.
\<close>

theorem dissolve_idempotent:
  assumes "isIntent (heap rt) ia opname xs"
  shows "\<exists>cfg. manifestCalculator ia options rt = Inr cfg \<and>
     (let once = dissolve (run calls cfg)
      in dissolve (snd once) = once \<and>
         \<not> isActive (snd once) \<and> dissolutionTimer (fst (snd once)) = None \<and>
         registry (snd once) = Some emptyRegistry)"
proof -
  from assms obtain cfg ps oa where m: "manifestCalculator ia options rt = Inr cfg"
    and i: "inv ia ps oa opname xs cfg"
    by (rule manifest_inv)
  note r = run_inv(1)[OF i, of calls]
  note d = dissolve_inv[OF r]
  have twice: "dissolve (snd (dissolve (run calls cfg))) = dissolve (run calls cfg)"
    unfolding dissolve_inv_eq[OF d]
    unfolding dissolve_inv_eq[OF r]
    by simp
  from m twice dissolve_frame(1,2)[OF r] inv_registry[OF d dissolve_frame(1)[OF r]]
  show ?thesis
    by (simp add: Let_def isActive_def)
qed

theorem dissolve_idempotent_witness:
  "isIntent (heap example_runtime) 0 ''divide'' [Finite 10, Finite 0] \<and>
   (\<exists>cfg. manifestCalculator 0 None example_runtime = Inr cfg \<and>
      dissolve (snd (dissolve (run [Execute (Inr None)] cfg))) = dissolve (run [Execute (Inr None)] cfg) \<and>
      registry (snd (dissolve (run [Execute (Inr None)] cfg))) = Some emptyRegistry)"
  using dissolve_idempotent[OF example_isIntent, of None "[Execute (Inr None)]"] example_isIntent
  by (auto simp: Let_def)

text \<open>
  Claim C8 says that no engine operation causes any change to the caller's intent. The
  constructor calls \<open>Object.freeze\<close> on the caller's own object: the intent
  \<open>{operation: 'divide', operands: [10, 0]}\<close> is not frozen before \<open>manifest\<close> and frozen
  after it, and the caller's assignment \<open>intent.operation = 'add'\<close>, which succeeds
  before, throws a \<open>TypeError\<close> after.
\<close>

theorem intent_fields_retained_counterexample:
  "\<not> isFrozen (heap example_runtime) 0 \<and>
   isFrozen (heap (snd (projr (manifestCalculator 0 None example_runtime)))) 0 \<and>
   setProp 0 ''operation'' (VStr ''add'') (heap example_runtime) =
     Inr [Obj [(''operation'', VStr ''add''), (''operands'', VRef 1)] False,
          Arr [VNum (Finite 10), VNum (Finite 0)]] \<and>
   setProp 0 ''operation'' (VStr ''add'') (heap (snd (projr (manifestCalculator 0 None example_runtime)))) =
     Inl (JsTypeError ''Cannot assign to read only property operation'')"
  unfolding example_manifest
  by (simp add: example_runtime_def isFrozen_def setProp_def lookup_def)

text \<open>
  Claim C8, amended. The intent given to \<open>manifest\<close> keeps its contents: after the
  manifestation and any sequence of \<open>execute()\<close>, \<open>dissolve()\<close> and timer events, every
  property of the intent object reads as it did before \<open>manifest\<close>; \<open>operands\<close> refers to
  the same array and the array is as it was. The engine changes the object in one respect:
  the constructor freezes it, in place, and it stays frozen, so from \<open>manifest\<close> on an
  assignment to one of its properties throws. The sweep over it during dissolution
  writes nothing.
\<close>

theorem intent_fields_retained:
  assumes "isIntent (heap rt) ia opname xs"
  shows "\<exists>cfg. manifestCalculator ia options rt = Inr cfg \<and>
     (let h' = heap (snd (run calls cfg))
      in (\<forall>key. getProp h' ia key = getProp (heap rt) ia key) \<and>
         intentOperandsRef h' ia = intentOperandsRef (heap rt) ia \<and>
         intentOperands h' ia = Some (map VNum xs) \<and>
         isIntent h' ia opname xs \<and>
         isFrozen h' ia \<and>
         (\<exists>ps fr. lookup (heap rt) ia = Some (Obj ps fr) \<and> lookup h' ia = Some (Obj ps True)) \<and>
         (\<exists>oa. intentOperandsRef (heap rt) ia = Some oa \<and> lookup h' oa = lookup (heap rt) oa) \<and>
         (\<forall>key v. setProp ia key v h' = Inl (JsTypeError (''Cannot assign to read only property '' @ key))))"
proof -
  from assms obtain cfg ps oa fr where m: "manifestCalculator ia options rt = Inr cfg"
    and i: "inv ia ps oa opname xs cfg"
    and h: "heap rt ! ia = Obj ps fr" "ia < length (heap rt)" "oa < length (heap rt)"
      "heap rt ! oa = Arr (map VNum xs)"
    by (rule manifest_inv)
  let ?h' = "heap (snd (run calls cfg))"
  note r = run_inv(1)[OF i, of calls]
  have 1: "getProp ?h' ia key = getProp (heap rt) ia key" for key
    using r h by (simp add: inv_def getProp_def lookup_def)
  have 2: "intentOperands ?h' ia = Some (map VNum xs)"
    using inv_reads(2)[OF r] r by (simp add: inv_def)
  have 3: "intentOperandsRef ?h' ia = intentOperandsRef (heap rt) ia"
    by (simp add: intentOperandsRef_def 1)
  have 4: "isIntent ?h' ia opname xs"
    using assms by (simp add: isIntent_def 1 2)
  have 5: "isFrozen ?h' ia"
    using r by (simp add: inv_def isFrozen_def lookup_def)
  have 6: "\<exists>ps fr. lookup (heap rt) ia = Some (Obj ps fr) \<and> lookup ?h' ia = Some (Obj ps True)"
    using r h by (simp add: inv_def lookup_def)
  have 7: "\<exists>oa. intentOperandsRef (heap rt) ia = Some oa \<and> lookup ?h' oa = lookup (heap rt) oa"
    using r h by (auto simp: inv_def lookup_def intentOperandsRef_def getProp_def)
  have 8: "setProp ia key v ?h' = Inl (JsTypeError (''Cannot assign to read only property '' @ key))" for key v
    using r by (simp add: inv_def setProp_def lookup_def)
  from m 1 2 3 4 5 6 7 8 show ?thesis by (simp add: Let_def)
qed

theorem intent_fields_retained_witness:
  "isIntent (heap example_runtime) 0 ''divide'' [Finite 10, Finite 0] \<and>
   (\<exists>cfg. manifestCalculator 0 None example_runtime = Inr cfg \<and>
      getProp (heap (snd (run [Execute (Inr None), Dissolve, Dissolve] cfg))) 0 ''operation'' =
        Some (VStr ''divide'') \<and>
      intentOperands (heap (snd (run [Execute (Inr None), Dissolve, Dissolve] cfg))) 0 =
        Some [VNum (Finite 10), VNum (Finite 0)] \<and>
      isFrozen (heap (snd (run [Execute (Inr None), Dissolve, Dissolve] cfg))) 0)"
proof -
  have "getProp (heap example_runtime) 0 ''operation'' = Some (VStr ''divide'')"
    by (simp add: example_runtime_def getProp_def lookup_def)
  with intent_fields_retained[OF example_isIntent, of None "[Execute (Inr None), Dissolve, Dissolve]"]
  show ?thesis using example_isIntent
    by (auto simp: Let_def)
qed


section \<open>The claims on the operations\<close>

text \<open>
  Claim C9 says that \<open>divide\<close> rounds a tie away from zero. It does not:
  \<open>divide([-5, 2])\<close> with precision 0 has the quotient \<open>-2.5\<close>, which half-away-from-zero
  rounding takes to \<open>-3\<close>, and the code returns \<open>-2\<close>.
\<close>

theorem divide_rounding_counterexample:
  "performDivision [Finite (- 5), Finite 2] \<lparr>precision = Some 0, roundingMode = None\<rparr>
     = Inr (Finite (- 2)) \<and>
   spec_round_half_away_from_zero (- 5 / 2) 0 = - 3"
  by (simp add: performDivision_eq Math_pow10_def rnd64_minus_5_2
      spec_round_half_away_from_zero_def)

text \<open>
  Claim C9, amended. For every operand sequence of length at least 1, \<open>divide\<close> fails
  with \<open>Error('Division by zero')\<close> if an operand after the first is 0, and otherwise
  computes the left-fold quotient \<open>q\<close> seeded by the first operand. With no precision it
  returns \<open>q\<close>; with the precision \<open>p\<close> it returns \<open>Math.round(q * 10^p) / 10^p\<close>, where
  \<open>Math.round\<close> gives the nearest integer and, of two equally near ones, the one towards
  \<open>+\<infinity>\<close>. So \<open>divide([22, 7])\<close> with precision 2 yields \<open>3.14\<close>, the double nearest to
  314/100.
\<close>

theorem divide_rounding:
  "performDivision (x # rest) preferences =
     (if Finite 0 \<in> set rest then Inl (JsError ''Division by zero'')
      else Inr (case precision preferences of
                  None \<Rightarrow> foldl fdiv x rest
                | Some p \<Rightarrow>
                    fdiv (Math_round (fmul (foldl fdiv x rest) (Math_pow10 p))) (Math_pow10 p))) \<and>
   Math_round (Finite r) = Finite (of_int \<lfloor>r + 1 / 2\<rfloor>) \<and>
   \<bar>of_int \<lfloor>r + 1 / 2\<rfloor> - r\<bar> \<le> 1 / 2 \<and>
   (r - of_int \<lfloor>r\<rfloor> = 1 / 2 \<longrightarrow> \<lfloor>r + 1 / 2\<rfloor> = \<lfloor>r\<rfloor> + 1) \<and>
   performDivision [Finite 22, Finite 7] \<lparr>precision = Some 2, roundingMode = None\<rparr>
     = Inr (rnd64 (314 / 100))"
proof (intro conjI impI)
  show "performDivision (x # rest) preferences =
     (if Finite 0 \<in> set rest then Inl (JsError ''Division by zero'')
      else Inr (case precision preferences of
                  None \<Rightarrow> foldl fdiv x rest
                | Some p \<Rightarrow>
                    fdiv (Math_round (fmul (foldl fdiv x rest) (Math_pow10 p))) (Math_pow10 p)))"
    by (simp add: performDivision_eq split: option.splits)
  show "Math_round (Finite r) = Finite (of_int \<lfloor>r + 1 / 2\<rfloor>)"
    by simp
  show "\<bar>of_int \<lfloor>r + 1 / 2\<rfloor> - r\<bar> \<le> 1 / 2"
    by (rule Math_round_nearest)
  show "\<lfloor>r + 1 / 2\<rfloor> = \<lfloor>r\<rfloor> + 1" if "r - of_int \<lfloor>r\<rfloor> = 1 / 2"
    using that by (rule Math_round_tie)
  show "performDivision [Finite 22, Finite 7] \<lparr>precision = Some 2, roundingMode = None\<rparr>
     = Inr (rnd64 (314 / 100))"
    by (rule divide_22_7)
qed

theorem divide_rounding_witness:
  "(- 5 / 2 :: rat) - of_int \<lfloor>- 5 / 2 :: rat\<rfloor> = 1 / 2 \<and>
   \<lfloor>(- 5 / 2 :: rat) + 1 / 2\<rfloor> = \<lfloor>- 5 / 2 :: rat\<rfloor> + 1 \<and>
   Math_round (Finite (- 5 / 2)) = Finite (- 2) \<and>
   performDivision [Finite 10, Finite 0] noPreferences = Inl (JsError ''Division by zero'') \<and>
   performDivision [Finite 22, Finite 7] \<lparr>precision = Some 2, roundingMode = None\<rparr>
     = Inr (rnd64 (314 / 100))"
  using divide_rounding[of "Finite 10" "[Finite 0]" noPreferences "- 5 / 2"]
  by simp

text \<open>
  Claim C10 says that \<open>add\<close> and \<open>multiply\<close> do not depend on the order of the operands.
  They do: \<open>add([2^53, 1, -2^53])\<close> is 0 and \<open>add([2^53, -2^53, 1])\<close> is 1, since
  \<open>2^53 + 1\<close> is no double; \<open>multiply([2^1023, 2, 0])\<close> is \<open>NaN\<close> and
  \<open>multiply([0, 2^1023, 2])\<close> is 0, since \<open>2^1024\<close> overflows.
\<close>

theorem add_multiply_order_counterexample:
  "performAddition [Finite 9007199254740992, Finite 1, Finite (- 9007199254740992)] noPreferences
     = Inr (Finite 0) \<and>
   performAddition [Finite 9007199254740992, Finite (- 9007199254740992), Finite 1] noPreferences
     = Inr (Finite 1) \<and>
   performMultiplication [Finite (2 ^ 1023), Finite 2, Finite 0] noPreferences = Inr NaN \<and>
   performMultiplication [Finite 0, Finite (2 ^ 1023), Finite 2] noPreferences = Inr (Finite 0)"
  using multiply_overflow by (simp add: performAddition_eq rnd64_2p53_plus_1)

text \<open>
  Claim C10, amended. For every operand sequence, \<open>add\<close> returns the left fold of the
  binary64 sum seeded with 0 and \<open>multiply\<close> the left fold of the binary64 product
  seeded with 1. For integer operands whose absolute values sum to at most \<open>2^53\<close>,
  \<open>add\<close> returns their exact sum; for integer operands whose absolute values, each
  taken as at least 1, multiply to at most \<open>2^53\<close>, \<open>multiply\<close> returns their exact
  product; and there the result is the same for every permutation of the operands.
\<close>

theorem add_multiply_order:
  "performAddition operands preferences = Inr (foldl fadd (Finite 0) operands) \<and>
   performMultiplication operands preferences = Inr (foldl fmul (Finite 1) operands) \<and>
   (mset ks' = mset ks \<and> sum_list (map abs ks) \<le> 2 ^ 53 \<longrightarrow>
      performAddition (integers ks) preferences = Inr (Finite (of_int (sum_list ks))) \<and>
      performAddition (integers ks') preferences = performAddition (integers ks) preferences) \<and>
   (mset ks' = mset ks \<and> prod_list (map (\<lambda>k. max 1 \<bar>k\<bar>) ks) \<le> 2 ^ 53 \<longrightarrow>
      performMultiplication (integers ks) preferences = Inr (Finite (of_int (prod_list ks))) \<and>
      performMultiplication (integers ks') preferences = performMultiplication (integers ks) preferences)"
proof -
  have a: "performAddition (integers ks') preferences = performAddition (integers ks) preferences"
    if "mset ks' = mset ks" "sum_list (map abs ks) \<le> 2 ^ 53"
  proof -
    have "sum_list (map abs ks') \<le> 2 ^ 53"
      using that mset_sum_list_eq[OF that(1), of abs] by simp
    moreover have "sum_list ks' = sum_list ks"
      using mset_sum_list_eq[OF that(1), of "\<lambda>k. k"] by simp
    ultimately show ?thesis
      using that(2) by (simp add: performAddition_int)
  qed
  have m: "performMultiplication (integers ks') preferences = performMultiplication (integers ks) preferences"
    if "mset ks' = mset ks" "prod_list (map (\<lambda>k. max 1 \<bar>k\<bar>) ks) \<le> 2 ^ 53"
  proof -
    have "prod_list (map (\<lambda>k. max 1 \<bar>k\<bar>) ks') \<le> 2 ^ 53"
      using that mset_prod_list_eq[OF that(1), of "\<lambda>k. max 1 \<bar>k\<bar>"] by simp
    moreover have "prod_list ks' = prod_list ks"
      using mset_prod_list_eq[OF that(1), of "\<lambda>k. k"] by simp
    ultimately show ?thesis
      using that(2) by (simp add: performMultiplication_int)
  qed
  show ?thesis
  proof (intro conjI impI)
    show "performAddition operands preferences = Inr (foldl fadd (Finite 0) operands)"
      by (rule performAddition_eq)
    show "performMultiplication operands preferences = Inr (foldl fmul (Finite 1) operands)"
      by (rule performMultiplication_eq)
  next
    assume h: "mset ks' = mset ks \<and> sum_list (map abs ks) \<le> 2 ^ 53"
    show "performAddition (integers ks) preferences = Inr (Finite (of_int (sum_list ks)))"
      by (rule performAddition_int) (rule conjunct2[OF h])
    show "performAddition (integers ks') preferences = performAddition (integers ks) preferences"
      by (rule a) (rule conjunct1[OF h], rule conjunct2[OF h])
  next
    assume h: "mset ks' = mset ks \<and> prod_list (map (\<lambda>k. max 1 \<bar>k\<bar>) ks) \<le> 2 ^ 53"
    show "performMultiplication (integers ks) preferences = Inr (Finite (of_int (prod_list ks)))"
      by (rule performMultiplication_int) (rule conjunct2[OF h])
    show "performMultiplication (integers ks') preferences = performMultiplication (integers ks) preferences"
      by (rule m) (rule conjunct1[OF h], rule conjunct2[OF h])
  qed
qed

theorem add_multiply_order_witness:
  "mset [6, 7] = mset [7, 6 :: int] \<and>
   sum_list (map abs [7, 6 :: int]) \<le> 2 ^ 53 \<and>
   prod_list (map (\<lambda>k. max 1 \<bar>k\<bar>) [7, 6 :: int]) \<le> 2 ^ 53 \<and>
   performMultiplication [Finite 7, Finite 6] noPreferences = Inr (Finite 42) \<and>
   performMultiplication [Finite 6, Finite 7] noPreferences = Inr (Finite 42) \<and>
   performAddition [Finite 7, Finite 6] noPreferences = Inr (Finite 13) \<and>
   performAddition [Finite 6, Finite 7] noPreferences = Inr (Finite 13)"
proof -
  have h: "mset [6, 7] = mset [7, 6 :: int]" "sum_list (map abs [7, 6 :: int]) \<le> 2 ^ 53"
    "prod_list (map (\<lambda>k. max 1 \<bar>k\<bar>) [7, 6 :: int]) \<le> 2 ^ 53"
    by simp_all
  from add_multiply_order[of "[]" noPreferences "[6, 7]" "[7, 6]"] h
  have "performAddition (integers [7, 6]) noPreferences = Inr (Finite (of_int (sum_list [7, 6])))"
    "performAddition (integers [6, 7]) noPreferences = performAddition (integers [7, 6]) noPreferences"
    "performMultiplication (integers [7, 6]) noPreferences = Inr (Finite (of_int (prod_list [7, 6])))"
    "performMultiplication (integers [6, 7]) noPreferences = performMultiplication (integers [7, 6]) noPreferences"
    by blast+
  then show ?thesis
    using h by (simp add: integers_def)
qed

end
